theory Spec2Isabelle
  imports Main
begin

section \<open>The persisted schema\<close>

text \<open>
  The two tables of the migration. Both \<open>id\<close> columns are \<open>SERIAL\<close> primary keys,
  \<open>User.username\<close> carries the only unique index, \<open>Authenticator.userId\<close> is a foreign
  key into \<open>User.id\<close>. The migration declares no index on \<open>Authenticator.credentialID\<close>.
  Counters are the unsigned values that the WebAuthn library reports (\<open>BigInt(n)\<close> of a
  non-negative integer, stored in a \<open>BIGINT\<close> column), key bytes are opaque.
\<close>

type_synonym bytes = "nat list"

record user =
  user_id :: nat
  username :: string
  currentChallenge :: "string option"

record authenticator =
  authenticator_id :: nat
  credentialID :: string
  credentialPublicKey :: bytes
  counter :: nat
  transports :: "string list"
  userId :: nat

text \<open>
  The database: the rows of each table in insertion order, and the last value handed
  out by each \<open>SERIAL\<close> sequence.
\<close>

record db =
  users :: "user list"
  authenticators :: "authenticator list"
  user_seq :: nat
  authenticator_seq :: nat

definition empty_db :: db where
  "empty_db = \<lparr>users = [], authenticators = [], user_seq = 0, authenticator_seq = 0\<rparr>"

text \<open>The Prisma client errors that the constraints of the migration can raise.\<close>

datatype prisma_error =
    UniqueConstraintFailed
  | ForeignKeyConstraintFailed
  | RecordNotFound

text \<open>
  \<open>prisma.user.findUnique({ where: { username } })\<close>: a lookup through the unique index,
  which holds at most one row of a name.
\<close>

definition user_findUnique :: "db \<Rightarrow> string \<Rightarrow> user option" where
  "user_findUnique d name = find (\<lambda>u. username u = name) (users d)"

text \<open>
  The relation loaded by \<open>include: { authenticators: true }\<close>, in the order of the
  store.
\<close>

definition user_authenticators :: "db \<Rightarrow> user \<Rightarrow> authenticator list" where
  "user_authenticators d u = filter (\<lambda>a. userId a = user_id u) (authenticators d)"

text \<open>\<open>prisma.user.create\<close>: the unique index on \<open>username\<close> rejects a second row.\<close>

definition user_create :: "db \<Rightarrow> string \<Rightarrow> string option \<Rightarrow> prisma_error + db" where
  "user_create d name chal =
     (if name \<in> set (map username (users d)) then Inl UniqueConstraintFailed
      else Inr (d\<lparr>users := users d @
                    [\<lparr>user_id = Suc (user_seq d), username = name, currentChallenge = chal\<rparr>],
                  user_seq := Suc (user_seq d)\<rparr>))"

text \<open>\<open>prisma.user.update({ where: { id }, data: { currentChallenge } })\<close>\<close>

definition user_update :: "db \<Rightarrow> nat \<Rightarrow> string option \<Rightarrow> prisma_error + db" where
  "user_update d uid chal =
     (if uid \<in> set (map user_id (users d))
      then Inr (d\<lparr>users := map (\<lambda>u. if user_id u = uid then u\<lparr>currentChallenge := chal\<rparr> else u)
                              (users d)\<rparr>)
      else Inl RecordNotFound)"

text \<open>
  \<open>prisma.authenticator.create\<close>: the only constraints on the table are the primary key
  (a fresh \<open>SERIAL\<close> value) and the foreign key on \<open>userId\<close>.
\<close>

definition authenticator_create ::
  "db \<Rightarrow> string \<Rightarrow> bytes \<Rightarrow> nat \<Rightarrow> string list \<Rightarrow> nat \<Rightarrow> prisma_error + db" where
  "authenticator_create d cid pk cnt tr uid =
     (if uid \<in> set (map user_id (users d))
      then Inr (d\<lparr>authenticators := authenticators d @
                    [\<lparr>authenticator_id = Suc (authenticator_seq d), credentialID = cid,
                      credentialPublicKey = pk, counter = cnt, transports = tr, userId = uid\<rparr>],
                  authenticator_seq := Suc (authenticator_seq d)\<rparr>)
      else Inl ForeignKeyConstraintFailed)"

text \<open>
  \<open>prisma.authenticator.update({ where: { id }, data: { counter } })\<close>. The relation of
  a user is read without an \<open>ORDER BY\<close>, in the order in which the store holds the rows:
  the store writes the new version of an updated row behind the rows it holds, so an
  updated authenticator is read last from then on.
\<close>

definition authenticator_update :: "db \<Rightarrow> nat \<Rightarrow> nat \<Rightarrow> prisma_error + db" where
  "authenticator_update d aid cnt =
     (if aid \<in> set (map authenticator_id (authenticators d))
      then Inr (d\<lparr>authenticators :=
                    filter (\<lambda>a. authenticator_id a \<noteq> aid) (authenticators d)
                    @ map (\<lambda>a. a\<lparr>counter := cnt\<rparr>)
                          (filter (\<lambda>a. authenticator_id a = aid) (authenticators d))\<rparr>)
      else Inl RecordNotFound)"

section \<open>Configuration, requests and replies\<close>

text \<open>
  The relying-party values and the signing key read from the process environment. The
  signing key may be unset (\<open>None\<close>) or set to the empty string.
\<close>

record config =
  rpName :: string
  rpID :: string
  origin :: string
  JWT_SECRET :: "string option"

text \<open>
  A bearer token as \<open>jwt.sign\<close> builds it: the payload's \<open>username\<close>, the issue and
  expiry times in seconds, and the key it was signed with (the signature, symbolically).
\<close>

record token =
  token_username :: string
  iat :: nat
  exp :: nat
  signed_with :: string

text \<open>
  The \<open>challenge\<close> member of the client data, as the client chose to send it: the
  routes hand the response to the library unvalidated, so it is a JSON \<open>null\<close>, a
  string, or any other value (a number, an object, or no member at all).
\<close>

datatype challenge_value = ChallengeNull | ChallengeString string | ChallengeOther

text \<open>
  What the client sends to the two verify routes, reduced to the parts that the checks
  read: the credential id, the challenge and origin of the client data, the relying party
  of the authenticator data, the reported counter, and for the signature the public key
  under which it verifies.
\<close>

record registration_response =
  reg_id :: string
  reg_challenge :: challenge_value
  reg_origin :: string
  reg_rpID :: string
  reg_publicKey :: bytes
  reg_counter :: nat
  reg_transports :: "string list option"
  reg_attestation_ok :: bool

record authentication_response =
  response_id :: string
  response_challenge :: challenge_value
  response_origin :: string
  response_rpID :: string
  response_counter :: nat
  response_signed_by :: bytes

text \<open>The JSON bodies that the routes send, and the reply with its status code.\<close>

datatype body =
    Error string
  | VerifiedFalse string
  | VerifiedTrue
  | VerifiedToken token
  | RegistrationOptions string string
  | AuthenticationOptions string "(string \<times> string list) list"
  | Message string
  | StatusText string

text \<open>
  \<open>Unhandled\<close> is a rejected promise outside any \<open>try\<close>: the route sends nothing.
\<close>

datatype reply = Reply nat body | Unhandled

section \<open>The WebAuthn library as the routes see it\<close>

text \<open>A library call either throws or returns its verification object.\<close>

datatype 'a outcome = Threw | Returned 'a

record credential =
  credential_id :: string
  credential_publicKey :: bytes
  credential_counter :: nat
  credential_transports :: "string list option"

record registration_verification =
  reg_verified :: bool
  registrationInfo :: "credential option"

record registration_args =
  ra_response :: registration_response
  ra_expectedChallenge :: "string option"
  ra_expectedOrigin :: string
  ra_expectedRPID :: string

record authentication_verification =
  auth_verified :: bool
  authenticationInfo_newCounter :: "nat option"

record authentication_args =
  aa_response :: authentication_response
  aa_expectedChallenge :: "string option"
  aa_expectedOrigin :: string
  aa_expectedRPID :: string
  aa_credential :: credential

type_synonym registration_verifier = "registration_args \<Rightarrow> registration_verification outcome"
type_synonym authentication_verifier =
  "authentication_args \<Rightarrow> authentication_verification outcome"

text \<open>
  The library's comparison \<open>challenge !== expectedChallenge\<close> of the response's challenge
  with the stored one that the route passes on (\<open>None\<close> is the stored \<open>null\<close>): strict
  equality, under which \<open>null\<close> equals \<open>null\<close>.
\<close>

definition strict_equal :: "challenge_value \<Rightarrow> string option \<Rightarrow> bool" where
  "strict_equal c expected =
     (case c of
        ChallengeNull \<Rightarrow> expected = None
      | ChallengeString s \<Rightarrow> expected = Some s
      | ChallengeOther \<Rightarrow> False)"

text \<open>
  Modelled from the spec: \<open>verifyRegistrationResponse\<close> of \<open>@simplewebauthn/server\<close>, which
  is imported by the server and is not part of the repository. The checks are those of
  the registration algorithm (the response's challenge against the expected one, exact
  equality of origin and relying-party id); a failed check throws, which the route's
  \<open>catch\<close> receives, and the verification object carries the attestation's verdict with
  the credential taken from the response.
\<close>

definition verifyRegistrationResponse :: registration_verifier where
  "verifyRegistrationResponse a =
     (let r = ra_response a in
      if \<not> strict_equal (reg_challenge r) (ra_expectedChallenge a) then Threw
      else if reg_origin r \<noteq> ra_expectedOrigin a then Threw
      else if reg_rpID r \<noteq> ra_expectedRPID a then Threw
      else Returned \<lparr>reg_verified = reg_attestation_ok r,
             registrationInfo =
               (if reg_attestation_ok r
                then Some \<lparr>credential_id = reg_id r, credential_publicKey = reg_publicKey r,
                           credential_counter = reg_counter r,
                           credential_transports = reg_transports r\<rparr>
                else None)\<rparr>)"

text \<open>
  Modelled from the spec: \<open>verifyAuthenticationResponse\<close> of \<open>@simplewebauthn/server\<close>,
  not part of the repository. The checks are those of the authentication algorithm:
  the response's challenge against the expected one, exact equality of origin and
  relying-party id, the counter rule (the reported counter is strictly greater than the
  stored one unless both are 0), and the signature under the stored public key. A failed
  challenge, origin, relying-party or counter check throws, which the route's \<open>catch\<close>
  receives; the signature's verdict is the \<open>verified\<close> field of the returned object.
\<close>

definition verifyAuthenticationResponse :: authentication_verifier where
  "verifyAuthenticationResponse a =
     (let r = aa_response a; c = aa_credential a in
      if \<not> strict_equal (response_challenge r) (aa_expectedChallenge a) then Threw
      else if response_origin r \<noteq> aa_expectedOrigin a then Threw
      else if response_rpID r \<noteq> aa_expectedRPID a then Threw
      else if (0 < response_counter r \<or> 0 < credential_counter c)
                \<and> response_counter r \<le> credential_counter c then Threw
      else Returned \<lparr>auth_verified = (response_signed_by r = credential_publicKey c),
             authenticationInfo_newCounter = Some (response_counter r)\<rparr>)"

section \<open>The session token library\<close>

text \<open>
  Modelled from the spec: \<open>jwt.sign\<close> and \<open>jwt.verify\<close> of \<open>jsonwebtoken\<close>, not part of the
  repository. A token is a signed, time-bounded assertion of its payload: \<open>sign\<close> stamps
  it with the clock and the validity, \<open>verify\<close> checks the signature against the key and
  then the expiry against the clock. The clock counts seconds. Without a key, unset or
  empty, \<open>sign\<close> throws and \<open>verify\<close> reports an error.
\<close>

definition jwt_sign :: "string \<Rightarrow> string option \<Rightarrow> nat \<Rightarrow> nat \<Rightarrow> token outcome" where
  "jwt_sign uname secret expiresIn now =
     (case secret of
        None \<Rightarrow> Threw
      | Some k \<Rightarrow>
          if k = [] then Threw
          else Returned \<lparr>token_username = uname, iat = now, exp = now + expiresIn,
                          signed_with = k\<rparr>)"

datatype jwt_error = JsonWebTokenError | TokenExpiredError

text \<open>A space-separated part of a header value: plain text, or an encoded token.\<close>

datatype header_part = Text string | Jwt token

definition jwt_verify :: "header_part \<Rightarrow> string option \<Rightarrow> nat \<Rightarrow> jwt_error + token" where
  "jwt_verify p secret now =
     (case p of
        Text s \<Rightarrow> Inl JsonWebTokenError
      | Jwt t \<Rightarrow>
          (case secret of
             None \<Rightarrow> Inl JsonWebTokenError
           | Some k \<Rightarrow>
               if k = [] \<or> signed_with t \<noteq> k then Inl JsonWebTokenError
               else if exp t \<le> now then Inl TokenExpiredError
               else Inr t))"

text \<open>The validity \<open>'1h'\<close> that the login route passes as \<open>expiresIn\<close>, in seconds.\<close>

definition one_hour :: nat where
  "one_hour = 60 * 60"

section \<open>The routes\<close>

text \<open>
  Each route takes the database and returns the reply with the database it leaves. The
  challenge of a challenge route is the fresh random value that the library's option
  generator puts in \<open>options.challenge\<close>; the clock of the login route is the time at
  which the token is signed. Usernames are strings that the store accepts (it refuses
  a NUL byte), so \<open>!username\<close> is the empty string.
\<close>

definition register_challenge :: "config \<Rightarrow> db \<Rightarrow> string \<Rightarrow> string \<Rightarrow> reply \<times> db" where
  "register_challenge cfg d uname chal =
     (if uname = [] then (Reply 400 (Error ''Username is required''), d)
      else case user_findUnique d uname of
        Some existingUser \<Rightarrow> (Reply 400 (Error ''Username already taken''), d)
      | None \<Rightarrow>
          (case user_create d uname (Some chal) of
             Inl e \<Rightarrow> (Unhandled, d)
           | Inr d' \<Rightarrow> (Reply 200 (RegistrationOptions chal uname), d')))"

definition register_verify ::
  "registration_verifier \<Rightarrow> config \<Rightarrow> db \<Rightarrow> string \<Rightarrow> registration_response \<Rightarrow> reply \<times> db" where
  "register_verify verify cfg d uname response =
     (case user_findUnique d uname of
        None \<Rightarrow> (Reply 404 (Error ''User not found''), d)
      | Some u \<Rightarrow>
          (case verify \<lparr>ra_response = response, ra_expectedChallenge = currentChallenge u,
                        ra_expectedOrigin = origin cfg, ra_expectedRPID = rpID cfg\<rparr> of
             Threw \<Rightarrow> (Reply 500 (Error ''Internal server error''), d)
           | Returned verification \<Rightarrow>
               if reg_verified verification then
                 (case registrationInfo verification of
                    None \<Rightarrow> (Reply 500 (Error ''Internal server error''), d)
                  | Some cred \<Rightarrow>
                      (case authenticator_create d (credential_id cred)
                              (credential_publicKey cred) (credential_counter cred)
                              (case credential_transports cred of None \<Rightarrow> [] | Some t \<Rightarrow> t)
                              (user_id u) of
                         Inl e \<Rightarrow> (Reply 500 (Error ''Internal server error''), d)
                       | Inr d1 \<Rightarrow>
                           (case user_update d1 (user_id u) None of
                              Inl e \<Rightarrow> (Reply 500 (Error ''Internal server error''), d1)
                            | Inr d2 \<Rightarrow> (Reply 200 VerifiedTrue, d2))))
               else (Reply 400 (VerifiedFalse ''Verification failed''), d)))"

definition login_challenge :: "db \<Rightarrow> string \<Rightarrow> string \<Rightarrow> reply \<times> db" where
  "login_challenge d uname chal =
     (case user_findUnique d uname of
        None \<Rightarrow> (Reply 404 (Error ''User not found or no authenticators registered''), d)
      | Some u \<Rightarrow>
          if length (user_authenticators d u) = 0
          then (Reply 404 (Error ''User not found or no authenticators registered''), d)
          else
            (case user_update d (user_id u) (Some chal) of
               Inl e \<Rightarrow> (Unhandled, d)
             | Inr d' \<Rightarrow>
                 (Reply 200 (AuthenticationOptions chal
                    (map (\<lambda>auth. (credentialID auth, transports auth))
                         (user_authenticators d u))), d')))"

definition login_verify ::
  "authentication_verifier \<Rightarrow> config \<Rightarrow> nat \<Rightarrow> db \<Rightarrow> string \<Rightarrow> authentication_response
     \<Rightarrow> reply \<times> db" where
  "login_verify verify cfg now d uname response =
     (case user_findUnique d uname of
        None \<Rightarrow> (Reply 404 (Error ''User not found''), d)
      | Some u \<Rightarrow>
          (case find (\<lambda>auth. credentialID auth = response_id response)
                     (user_authenticators d u) of
             None \<Rightarrow> (Reply 400 (Error ''Authenticator not recognized''), d)
           | Some auth \<Rightarrow>
               (case verify \<lparr>aa_response = response, aa_expectedChallenge = currentChallenge u,
                        aa_expectedOrigin = origin cfg, aa_expectedRPID = rpID cfg,
                        aa_credential =
                          \<lparr>credential_id = credentialID auth,
                           credential_publicKey = credentialPublicKey auth,
                           credential_counter = counter auth,
                           credential_transports = Some (transports auth)\<rparr>\<rparr> of
                  Threw \<Rightarrow> (Reply 500 (Error ''Internal server error''), d)
                | Returned verification \<Rightarrow>
                    if auth_verified verification then
                      (case authenticationInfo_newCounter verification of
                         None \<Rightarrow> (Reply 500 (Error ''Internal server error''), d)
                       | Some newCounter \<Rightarrow>
                           (case authenticator_update d (authenticator_id auth) newCounter of
                              Inl e \<Rightarrow> (Reply 500 (Error ''Internal server error''), d)
                            | Inr d1 \<Rightarrow>
                                (case user_update d1 (user_id u) None of
                                   Inl e \<Rightarrow> (Reply 500 (Error ''Internal server error''), d1)
                                 | Inr d2 \<Rightarrow>
                                     (case jwt_sign (username u) (JWT_SECRET cfg) one_hour now of
                                        Threw \<Rightarrow>
                                          (Reply 500 (Error ''Internal server error''), d2)
                                      | Returned token \<Rightarrow>
                                          (Reply 200 (VerifiedToken token), d2)))))
                    else (Reply 400 (VerifiedFalse ''Verification failed''), d))))"

text \<open>
  The middleware of the protected route. The header value is absent or a list of its
  space-separated parts; the token is the second part. The result is the status that
  \<open>sendStatus\<close> sends, or the payload handed to the route as \<open>req.user\<close>.
\<close>

definition verifyToken :: "config \<Rightarrow> nat \<Rightarrow> header_part list option \<Rightarrow> nat + token" where
  "verifyToken cfg now authHeader =
     (case authHeader of
        None \<Rightarrow> Inl 401
      | Some parts \<Rightarrow>
          if length parts < 2 \<or> parts ! 1 = Text [] then Inl 401
          else (case jwt_verify (parts ! 1) (JWT_SECRET cfg) now of
                  Inl err \<Rightarrow> Inl 403
                | Inr payload \<Rightarrow> Inr payload))"

definition profile :: "config \<Rightarrow> nat \<Rightarrow> header_part list option \<Rightarrow> reply" where
  "profile cfg now authHeader =
     (case verifyToken cfg now authHeader of
        Inl status \<Rightarrow>
          Reply status (StatusText (if status = 401 then ''Unauthorized'' else ''Forbidden''))
      | Inr payload \<Rightarrow>
          Reply 200 (Message (''Welcome, '' @ token_username payload
                               @ ''! This is a protected resource.'')))"

section \<open>Sequences of requests\<close>

datatype request =
    RegisterChallenge string string
  | RegisterVerify string registration_response
  | LoginChallenge string string
  | LoginVerify nat string authentication_response

fun handle ::
  "registration_verifier \<Rightarrow> authentication_verifier \<Rightarrow> config \<Rightarrow> db \<Rightarrow> request \<Rightarrow> reply \<times> db" where
  "handle vr va cfg d (RegisterChallenge uname chal) = register_challenge cfg d uname chal"
| "handle vr va cfg d (RegisterVerify uname response) = register_verify vr cfg d uname response"
| "handle vr va cfg d (LoginChallenge uname chal) = login_challenge d uname chal"
| "handle vr va cfg d (LoginVerify now uname response) = login_verify va cfg now d uname response"

fun run ::
  "registration_verifier \<Rightarrow> authentication_verifier \<Rightarrow> config \<Rightarrow> db \<Rightarrow> request list \<Rightarrow> db" where
  "run vr va cfg d [] = d"
| "run vr va cfg d (req # reqs) = run vr va cfg (snd (handle vr va cfg d req)) reqs"

section \<open>Notions used by the properties\<close>

text \<open>A call has failed when its reply is not a \<open>200\<close>.\<close>

definition failed :: "reply \<Rightarrow> bool" where
  "failed r = (case r of Reply status b \<Rightarrow> status \<noteq> 200 | Unhandled \<Rightarrow> True)"

text \<open>The challenges that are pending for a username, over all rows of the user table.\<close>

definition pending :: "db \<Rightarrow> string \<Rightarrow> string list" where
  "pending d name =
     concat (map (\<lambda>u. case currentChallenge u of None \<Rightarrow> [] | Some c \<Rightarrow> [c])
                 (filter (\<lambda>u. username u = name) (users d)))"

text \<open>
  An assertion that presents the challenge \<open>chal\<close> and passes every other check of the
  library for the stored credential \<open>auth\<close>.
\<close>

definition acceptable ::
  "config \<Rightarrow> authenticator \<Rightarrow> string \<Rightarrow> authentication_response \<Rightarrow> bool" where
  "acceptable cfg auth chal r =
     (response_challenge r = ChallengeString chal \<and> response_origin r = origin cfg
      \<and> response_rpID r = rpID cfg \<and> response_signed_by r = credentialPublicKey auth
      \<and> (counter auth < response_counter r \<or> counter auth = 0 \<and> response_counter r = 0))"

text \<open>
  A registration that presents the challenge \<open>chal\<close> and passes every other check of
  the library.
\<close>

definition registrable :: "config \<Rightarrow> string \<Rightarrow> registration_response \<Rightarrow> bool" where
  "registrable cfg chal r =
     (reg_challenge r = ChallengeString chal \<and> reg_origin r = origin cfg
      \<and> reg_rpID r = rpID cfg \<and> reg_attestation_ok r)"

text \<open>The signing key is configured: set, and not to the empty string.\<close>

definition key_configured :: "config \<Rightarrow> bool" where
  "key_configured cfg = (case JWT_SECRET cfg of None \<Rightarrow> False | Some k \<Rightarrow> k \<noteq> [])"

section \<open>A concrete deployment\<close>

definition cfg0 :: config where
  "cfg0 = \<lparr>rpName = ''Passkey Demo'', rpID = ''localhost'',
           origin = ''http://localhost:5173'', JWT_SECRET = Some ''s3cret''\<rparr>"

text \<open>Well-formed responses of a client of that deployment.\<close>

definition registration_of :: "string \<Rightarrow> string \<Rightarrow> bytes \<Rightarrow> nat \<Rightarrow> registration_response" where
  "registration_of cid chal pk n =
     \<lparr>reg_id = cid, reg_challenge = ChallengeString chal, reg_origin = ''http://localhost:5173'',
      reg_rpID = ''localhost'', reg_publicKey = pk, reg_counter = n,
      reg_transports = None, reg_attestation_ok = True\<rparr>"

definition assertion_of :: "string \<Rightarrow> string \<Rightarrow> bytes \<Rightarrow> nat \<Rightarrow> authentication_response" where
  "assertion_of cid chal pk n =
     \<lparr>response_id = cid, response_challenge = ChallengeString chal,
      response_origin = ''http://localhost:5173'', response_rpID = ''localhost'',
      response_counter = n, response_signed_by = pk\<rparr>"

definition serve :: "db \<Rightarrow> request list \<Rightarrow> db" where
  "serve d reqs = run verifyRegistrationResponse verifyAuthenticationResponse cfg0 d reqs"

text \<open>
  "alice" has registered credential \<open>C1\<close> with counter 0; "bob" has asked for a
  registration challenge and has no credential yet.
\<close>

definition db_alice_bob :: db where
  "db_alice_bob = serve empty_db
     [RegisterChallenge ''alice'' ''ch-a'',
      RegisterVerify ''alice'' (registration_of ''C1'' ''ch-a'' [1, 2, 3] 0),
      RegisterChallenge ''bob'' ''ch-b'']"

text \<open>Then "bob" registers \<open>C2\<close> and "alice" asks for a login challenge.\<close>

definition db_two_owners :: db where
  "db_two_owners = serve db_alice_bob
     [RegisterVerify ''bob'' (registration_of ''C2'' ''ch-b'' [4, 5, 6] 0),
      LoginChallenge ''alice'' ''ch-1'']"

text \<open>
  Then "alice" logs in with reported counter 1 and asks for a second login challenge:
  her stored counter is 1.
\<close>

definition db_second_login :: db where
  "db_second_login = serve db_two_owners
     [LoginVerify 1000 ''alice'' (assertion_of ''C1'' ''ch-1'' [1, 2, 3] 1),
      LoginChallenge ''alice'' ''ch-2'']"

section \<open>Basic facts about lookups and writes\<close>

lemma find_SomeD: "find P xs = Some x \<Longrightarrow> x \<in> set xs \<and> P x"
  by (induction xs) (auto split: if_splits)

lemma find_map_preserving:
  "(\<And>x. P (f x) = P x) \<Longrightarrow> find P (map f xs) = map_option f (find P xs)"
  by (induction xs) auto

lemma filter_map_preserving:
  "(\<And>x. P (f x) = P x) \<Longrightarrow> filter P (map f xs) = map f (filter P xs)"
  by (induction xs) auto

lemma user_findUnique_SomeD:
  "user_findUnique d name = Some u \<Longrightarrow> u \<in> set (users d) \<and> username u = name"
  by (auto simp: user_findUnique_def dest: find_SomeD)

lemma user_findUnique_None_iff:
  "user_findUnique d name = None \<longleftrightarrow> name \<notin> set (map username (users d))"
  by (auto simp: user_findUnique_def find_None_iff)

lemma find_authenticator_SomeD:
  "find P (user_authenticators d u) = Some a \<Longrightarrow>
     a \<in> set (authenticators d) \<and> userId a = user_id u \<and> P a"
  by (auto simp: user_authenticators_def dest: find_SomeD)

lemma user_update_found:
  "u \<in> set (users d) \<Longrightarrow>
     user_update d (user_id u) chal =
       Inr (d\<lparr>users := map (\<lambda>x. if user_id x = user_id u then x\<lparr>currentChallenge := chal\<rparr> else x)
                          (users d)\<rparr>)"
  by (auto simp: user_update_def)

lemma authenticator_update_found:
  "a \<in> set (authenticators d) \<Longrightarrow>
     authenticator_update d (authenticator_id a) n =
       Inr (d\<lparr>authenticators :=
                 filter (\<lambda>x. authenticator_id x \<noteq> authenticator_id a) (authenticators d)
                 @ map (\<lambda>x. x\<lparr>counter := n\<rparr>)
                       (filter (\<lambda>x. authenticator_id x = authenticator_id a) (authenticators d))\<rparr>)"
  by (auto simp: authenticator_update_def)

lemma authenticator_create_found:
  "u \<in> set (users d) \<Longrightarrow>
     authenticator_create d cid pk n tr (user_id u) =
       Inr (d\<lparr>authenticators := authenticators d @
                 [\<lparr>authenticator_id = Suc (authenticator_seq d), credentialID = cid,
                   credentialPublicKey = pk, counter = n, transports = tr, userId = user_id u\<rparr>],
               authenticator_seq := Suc (authenticator_seq d)\<rparr>)"
  by (auto simp: authenticator_create_def)

text \<open>
  The two verify routes with the database operations resolved: on a user that was found,
  and a credential that was found among that user's, no database call fails.
\<close>

lemma register_verify_found:
  assumes "user_findUnique d uname = Some u"
  shows "register_verify verify cfg d uname response =
     (case verify \<lparr>ra_response = response, ra_expectedChallenge = currentChallenge u,
                   ra_expectedOrigin = origin cfg, ra_expectedRPID = rpID cfg\<rparr> of
        Threw \<Rightarrow> (Reply 500 (Error ''Internal server error''), d)
      | Returned v \<Rightarrow>
          if reg_verified v then
            (case registrationInfo v of
               None \<Rightarrow> (Reply 500 (Error ''Internal server error''), d)
             | Some cred \<Rightarrow>
                 (Reply 200 VerifiedTrue,
                  d\<lparr>authenticators := authenticators d @
                      [\<lparr>authenticator_id = Suc (authenticator_seq d),
                        credentialID = credential_id cred,
                        credentialPublicKey = credential_publicKey cred,
                        counter = credential_counter cred,
                        transports = (case credential_transports cred of None \<Rightarrow> [] | Some t \<Rightarrow> t),
                        userId = user_id u\<rparr>],
                    authenticator_seq := Suc (authenticator_seq d),
                    users := map (\<lambda>x. if user_id x = user_id u
                                       then x\<lparr>currentChallenge := None\<rparr> else x) (users d)\<rparr>))
          else (Reply 400 (VerifiedFalse ''Verification failed''), d))"
proof -
  from assms have mem: "u \<in> set (users d)"
    by (simp add: user_findUnique_SomeD)
  show ?thesis
    by (simp add: register_verify_def assms authenticator_create_found[OF mem]
        user_update_def mem split: outcome.splits option.splits)
qed

lemma login_verify_found:
  assumes "user_findUnique d uname = Some u"
    and "find (\<lambda>a. credentialID a = response_id response) (user_authenticators d u) = Some auth"
  shows "login_verify verify cfg now d uname response =
     (case verify \<lparr>aa_response = response, aa_expectedChallenge = currentChallenge u,
                   aa_expectedOrigin = origin cfg, aa_expectedRPID = rpID cfg,
                   aa_credential =
                     \<lparr>credential_id = credentialID auth,
                      credential_publicKey = credentialPublicKey auth,
                      credential_counter = counter auth,
                      credential_transports = Some (transports auth)\<rparr>\<rparr> of
        Threw \<Rightarrow> (Reply 500 (Error ''Internal server error''), d)
      | Returned v \<Rightarrow>
          if auth_verified v then
            (case authenticationInfo_newCounter v of
               None \<Rightarrow> (Reply 500 (Error ''Internal server error''), d)
             | Some n \<Rightarrow>
                 ((case jwt_sign (username u) (JWT_SECRET cfg) one_hour now of
                     Threw \<Rightarrow> Reply 500 (Error ''Internal server error'')
                   | Returned token \<Rightarrow> Reply 200 (VerifiedToken token)),
                  d\<lparr>authenticators :=
                      filter (\<lambda>x. authenticator_id x \<noteq> authenticator_id auth) (authenticators d)
                      @ map (\<lambda>x. x\<lparr>counter := n\<rparr>)
                            (filter (\<lambda>x. authenticator_id x = authenticator_id auth)
                                    (authenticators d)),
                    users := map (\<lambda>x. if user_id x = user_id u
                                       then x\<lparr>currentChallenge := None\<rparr> else x) (users d)\<rparr>))
          else (Reply 400 (VerifiedFalse ''Verification failed''), d))"
proof -
  from assms(1) have mem: "u \<in> set (users d)"
    by (simp add: user_findUnique_SomeD)
  from assms(2) have amem: "auth \<in> set (authenticators d)"
    by (simp add: find_authenticator_SomeD)
  show ?thesis
    by (simp add: login_verify_def assms authenticator_update_found[OF amem]
        user_update_def mem split: outcome.splits option.splits)
qed

lemma register_verify_failed:
  "failed (fst (register_verify vr cfg d uname rr)) \<Longrightarrow>
     snd (register_verify vr cfg d uname rr) = d"
proof (cases "user_findUnique d uname")
  case None
  then show ?thesis by (simp add: register_verify_def)
next
  case (Some u)
  assume "failed (fst (register_verify vr cfg d uname rr))"
  then show ?thesis
    unfolding register_verify_found[OF Some]
    by (auto simp: failed_def split: outcome.splits option.splits if_splits)
qed

lemma jwt_sign_configured:
  "key_configured cfg \<Longrightarrow>
     jwt_sign uname (JWT_SECRET cfg) expiresIn now =
       Returned \<lparr>token_username = uname, iat = now, exp = now + expiresIn,
                 signed_with = the (JWT_SECRET cfg)\<rparr>"
  by (auto simp: key_configured_def jwt_sign_def split: option.splits)

lemma login_verify_failed:
  assumes k: "key_configured cfg"
    and f: "failed (fst (login_verify va cfg now d uname ar))"
  shows "snd (login_verify va cfg now d uname ar) = d"
proof (cases "user_findUnique d uname")
  case None
  then show ?thesis by (simp add: login_verify_def)
next
  case (Some u)
  show ?thesis
  proof (cases "find (\<lambda>a. credentialID a = response_id ar) (user_authenticators d u)")
    case None
    with Some show ?thesis by (simp add: login_verify_def)
  next
    case (Some auth)
    from f show ?thesis
      unfolding login_verify_found[OF \<open>user_findUnique d uname = Some u\<close> Some]
      by (auto simp: failed_def jwt_sign_configured[OF k]
          split: outcome.splits option.splits if_splits)
  qed
qed


text \<open>The databases of the concrete deployment, evaluated.\<close>

lemma db_alice_bob_eq:
  "db_alice_bob =
     \<lparr>users = [\<lparr>user_id = 1, username = ''alice'', currentChallenge = None\<rparr>,
               \<lparr>user_id = 2, username = ''bob'', currentChallenge = Some ''ch-b''\<rparr>],
      authenticators =
        [\<lparr>authenticator_id = 1, credentialID = ''C1'', credentialPublicKey = [1, 2, 3],
          counter = 0, transports = [], userId = 1\<rparr>],
      user_seq = 2, authenticator_seq = 1\<rparr>"
  by code_simp

lemma db_two_owners_eq:
  "db_two_owners =
     \<lparr>users = [\<lparr>user_id = 1, username = ''alice'', currentChallenge = Some ''ch-1''\<rparr>,
               \<lparr>user_id = 2, username = ''bob'', currentChallenge = None\<rparr>],
      authenticators =
        [\<lparr>authenticator_id = 1, credentialID = ''C1'', credentialPublicKey = [1, 2, 3],
          counter = 0, transports = [], userId = 1\<rparr>,
         \<lparr>authenticator_id = 2, credentialID = ''C2'', credentialPublicKey = [4, 5, 6],
          counter = 0, transports = [], userId = 2\<rparr>],
      user_seq = 2, authenticator_seq = 2\<rparr>"
  by code_simp

lemma db_second_login_eq:
  "db_second_login =
     \<lparr>users = [\<lparr>user_id = 1, username = ''alice'', currentChallenge = Some ''ch-2''\<rparr>,
               \<lparr>user_id = 2, username = ''bob'', currentChallenge = None\<rparr>],
      authenticators =
        [\<lparr>authenticator_id = 2, credentialID = ''C2'', credentialPublicKey = [4, 5, 6],
          counter = 0, transports = [], userId = 2\<rparr>,
         \<lparr>authenticator_id = 1, credentialID = ''C1'', credentialPublicKey = [1, 2, 3],
          counter = 1, transports = [], userId = 1\<rparr>],
      user_seq = 2, authenticator_seq = 2\<rparr>"
  by code_simp

section \<open>Registering a credential id twice\<close>

text \<open>
  Counterexample to C1 as stated: "alice" holds credential \<open>C1\<close>; a registration of
  the same credential id for "bob" is answered \<open>verified: true\<close> and "bob" ends up with
  one credential, a second row with the credential id \<open>C1\<close>.
\<close>

theorem duplicate_credentialID_is_inserted:
  "fst (register_verify verifyRegistrationResponse cfg0 db_alice_bob ''bob''
          (registration_of ''C1'' ''ch-b'' [4, 5, 6] 0)) = Reply 200 VerifiedTrue
   \<and> map (\<lambda>a. (credentialID a, userId a))
        (authenticators (snd (register_verify verifyRegistrationResponse cfg0 db_alice_bob ''bob''
          (registration_of ''C1'' ''ch-b'' [4, 5, 6] 0)))) = [(''C1'', 1), (''C1'', 2)]"
  by code_simp

text \<open>
  C1, as amended: for every state of the registry and every registration-verify call
  on an existing user whose response the library verifies, the commit step inserts a new
  Authenticator for that user under a fresh id. Neither the table nor the route compares
  the credential id with the stored ones, so this holds also when the same credential id
  is already stored, under this user or any other.
\<close>

theorem register_verify_commits:
  assumes "user_findUnique d uname = Some u"
    and "verify \<lparr>ra_response = response, ra_expectedChallenge = currentChallenge u,
                 ra_expectedOrigin = origin cfg, ra_expectedRPID = rpID cfg\<rparr>
         = Returned \<lparr>reg_verified = True, registrationInfo = Some cred\<rparr>"
  shows "fst (register_verify verify cfg d uname response) = Reply 200 VerifiedTrue
    \<and> authenticators (snd (register_verify verify cfg d uname response)) =
        authenticators d @
          [\<lparr>authenticator_id = Suc (authenticator_seq d), credentialID = credential_id cred,
            credentialPublicKey = credential_publicKey cred, counter = credential_counter cred,
            transports = (case credential_transports cred of None \<Rightarrow> [] | Some t \<Rightarrow> t),
            userId = user_id u\<rparr>]"
  by (simp add: register_verify_found[OF assms(1)] assms(2))

text \<open>
  The amended C1 at the scenario of the claim: \<open>C1\<close> is stored for "alice" and is then
  registered for "bob".
\<close>

theorem register_verify_commits_witness:
  "user_findUnique db_alice_bob ''bob''
     = Some \<lparr>user_id = 2, username = ''bob'', currentChallenge = Some ''ch-b''\<rparr>
   \<and> ''C1'' \<in> set (map credentialID (authenticators db_alice_bob))
   \<and> fst (register_verify verifyRegistrationResponse cfg0 db_alice_bob ''bob''
            (registration_of ''C1'' ''ch-b'' [4, 5, 6] 0)) = Reply 200 VerifiedTrue
   \<and> authenticators (snd (register_verify verifyRegistrationResponse cfg0 db_alice_bob ''bob''
            (registration_of ''C1'' ''ch-b'' [4, 5, 6] 0))) =
       authenticators db_alice_bob @
         [\<lparr>authenticator_id = 2, credentialID = ''C1'', credentialPublicKey = [4, 5, 6],
           counter = 0, transports = [], userId = 2\<rparr>]"
proof -
  have u: "user_findUnique db_alice_bob ''bob''
     = Some \<lparr>user_id = 2, username = ''bob'', currentChallenge = Some ''ch-b''\<rparr>"
    by code_simp
  have v: "verifyRegistrationResponse
       \<lparr>ra_response = registration_of ''C1'' ''ch-b'' [4, 5, 6] 0,
        ra_expectedChallenge =
          currentChallenge \<lparr>user_id = 2, username = ''bob'', currentChallenge = Some ''ch-b''\<rparr>,
        ra_expectedOrigin = origin cfg0, ra_expectedRPID = rpID cfg0\<rparr>
     = Returned \<lparr>reg_verified = True,
         registrationInfo = Some \<lparr>credential_id = ''C1'', credential_publicKey = [4, 5, 6],
           credential_counter = 0, credential_transports = None\<rparr>\<rparr>"
    by code_simp
  have m: "''C1'' \<in> set (map credentialID (authenticators db_alice_bob))"
    by code_simp
  have s: "authenticator_seq db_alice_bob = 1"
    by code_simp
  from register_verify_commits[where verify = verifyRegistrationResponse and cfg = cfg0
      and response = "registration_of ''C1'' ''ch-b'' [4, 5, 6] 0", OF u v] u m s
  show ?thesis
    by simp
qed

section \<open>Failed verifications and the state\<close>




section \<open>A credential of another account\<close>

text \<open>
  C5: for every authentication-verify call whose user exists, if no Authenticator owned
  by that user has the credential id that the response declares, the reply is the
  400 "Authenticator not recognized" and the database is returned as it was. The
  lookup runs over the user's own authenticators only, so a credential id stored under
  a different user does not help.
\<close>

theorem login_verify_unrecognized_credential:
  assumes "user_findUnique d uname = Some u"
    and "response_id response \<notin> set (map credentialID (user_authenticators d u))"
  shows "login_verify verify cfg now d uname response
           = (Reply 400 (Error ''Authenticator not recognized''), d)"
proof -
  from assms(2)
  have "find (\<lambda>a. credentialID a = response_id response) (user_authenticators d u) = None"
    by (force simp: find_None_iff)
  with assms(1) show ?thesis
    by (simp add: login_verify_def)
qed

text \<open>
  C5 where the credential exists under another account: "alice" presents "bob"'s
  credential \<open>C2\<close>, correctly signed and with the challenge issued to her.
\<close>

theorem login_verify_unrecognized_credential_witness:
  "user_findUnique db_two_owners ''alice''
     = Some \<lparr>user_id = 1, username = ''alice'', currentChallenge = Some ''ch-1''\<rparr>
   \<and> ''C2'' \<in> set (map credentialID (authenticators db_two_owners))
   \<and> ''C2'' \<notin> set (map credentialID (user_authenticators db_two_owners
        \<lparr>user_id = 1, username = ''alice'', currentChallenge = Some ''ch-1''\<rparr>))
   \<and> login_verify verifyAuthenticationResponse cfg0 2000 db_two_owners ''alice''
        (assertion_of ''C2'' ''ch-1'' [4, 5, 6] 1)
       = (Reply 400 (Error ''Authenticator not recognized''), db_two_owners)"
proof -
  have u: "user_findUnique db_two_owners ''alice''
     = Some \<lparr>user_id = 1, username = ''alice'', currentChallenge = Some ''ch-1''\<rparr>"
    by code_simp
  have e: "''C2'' \<in> set (map credentialID (authenticators db_two_owners))"
    by code_simp
  have n: "response_id (assertion_of ''C2'' ''ch-1'' [4, 5, 6] 1)
      \<notin> set (map credentialID (user_authenticators db_two_owners
        \<lparr>user_id = 1, username = ''alice'', currentChallenge = Some ''ch-1''\<rparr>))"
    by code_simp
  have i: "response_id (assertion_of ''C2'' ''ch-1'' [4, 5, 6] 1) = ''C2''"
    by (simp add: assertion_of_def)
  from login_verify_unrecognized_credential[where verify = verifyAuthenticationResponse
      and cfg = cfg0 and now = 2000, OF u n] u e n i
  show ?thesis by simp
qed

section \<open>A login without a pending challenge\<close>

text \<open>
  With no challenge stored, the library throws on every challenge but \<open>null\<close>: the
  reply is the 400 of an unknown credential or the 500 of the \<open>catch\<close> branch.
\<close>

lemma login_verify_no_pending:
  assumes u: "user_findUnique d uname = Some u"
    and c: "currentChallenge u = None"
    and n: "response_challenge response \<noteq> ChallengeNull"
  shows "login_verify verifyAuthenticationResponse cfg now d uname response
           = (if response_id response \<in> set (map credentialID (user_authenticators d u))
              then Reply 500 (Error ''Internal server error'')
              else Reply 400 (Error ''Authenticator not recognized''), d)"
proof (cases "find (\<lambda>a. credentialID a = response_id response) (user_authenticators d u)")
  case None
  then have "response_id response \<notin> set (map credentialID (user_authenticators d u))"
    by (force simp: find_None_iff)
  with u None show ?thesis
    by (simp add: login_verify_def)
next
  case (Some auth)
  then have "response_id response \<in> set (map credentialID (user_authenticators d u))"
    by (force dest: find_SomeD)
  moreover from n have "\<not> strict_equal (response_challenge response) None"
    by (simp add: strict_equal_def split: challenge_value.splits)
  ultimately show ?thesis
    by (simp add: login_verify_found[OF u Some] c verifyAuthenticationResponse_def)
qed

text \<open>
  Counterexample to C10 as stated: "bob" owns \<open>C2\<close> and has no challenge pending. A
  response whose client data carries the challenge \<open>null\<close>, signed with his key, equals
  the stored \<open>null\<close> under the library's comparison: the login succeeds with a token
  and the counter is written.
\<close>

theorem null_challenge_login_succeeds:
  "map_option currentChallenge (user_findUnique db_two_owners ''bob'') = Some None
   \<and> fst (login_verify verifyAuthenticationResponse cfg0 2000 db_two_owners ''bob''
          ((assertion_of ''C2'' [] [4, 5, 6] 1)\<lparr>response_challenge := ChallengeNull\<rparr>))
     = Reply 200 (VerifiedToken
         \<lparr>token_username = ''bob'', iat = 2000, exp = 5600, signed_with = ''s3cret''\<rparr>)
   \<and> map (\<lambda>a. (credentialID a, counter a))
        (authenticators (snd (login_verify verifyAuthenticationResponse cfg0 2000 db_two_owners
           ''bob'' ((assertion_of ''C2'' [] [4, 5, 6] 1)\<lparr>response_challenge := ChallengeNull\<rparr>))))
       = [(''C1'', 0), (''C2'', 1)]"
  by code_simp

text \<open>
  C10, as amended: for every authentication-verify call where the user exists and owns
  the presented credential but has no pending challenge stored, and whose response
  carries a challenge other than \<open>null\<close>, the library's comparison of that challenge
  with the stored \<open>null\<close> fails by throwing, so the reply is the generic 500
  "Internal server error" of the \<open>catch\<close> branch, whatever else the response holds, and
  the database is returned as it was.
\<close>

theorem login_verify_without_challenge:
  assumes "user_findUnique d uname = Some u"
    and "currentChallenge u = None"
    and "find (\<lambda>a. credentialID a = response_id response) (user_authenticators d u) = Some auth"
    and "response_challenge response \<noteq> ChallengeNull"
  shows "login_verify verifyAuthenticationResponse cfg now d uname response
           = (Reply 500 (Error ''Internal server error''), d)"
proof -
  from assms(4) have "\<not> strict_equal (response_challenge response) None"
    by (simp add: strict_equal_def split: challenge_value.splits)
  then show ?thesis
    by (simp add: login_verify_found[OF assms(1) assms(3)] assms(2)
        verifyAuthenticationResponse_def)
qed

text \<open>
  The amended C10 at a login of "bob", who owns \<open>C2\<close> and has no challenge pending:
  an assertion that carries the challenge string of his registration and is otherwise
  in order gets the 500.
\<close>

theorem login_verify_without_challenge_witness:
  "user_findUnique db_two_owners ''bob''
     = Some \<lparr>user_id = 2, username = ''bob'', currentChallenge = None\<rparr>
   \<and> find (\<lambda>a. credentialID a = ''C2'')
        (user_authenticators db_two_owners \<lparr>user_id = 2, username = ''bob'', currentChallenge = None\<rparr>)
       = Some \<lparr>authenticator_id = 2, credentialID = ''C2'', credentialPublicKey = [4, 5, 6],
                counter = 0, transports = [], userId = 2\<rparr>
   \<and> response_challenge (assertion_of ''C2'' ''ch-b'' [4, 5, 6] 1) = ChallengeString ''ch-b''
   \<and> login_verify verifyAuthenticationResponse cfg0 2000 db_two_owners ''bob''
        (assertion_of ''C2'' ''ch-b'' [4, 5, 6] 1)
       = (Reply 500 (Error ''Internal server error''), db_two_owners)"
proof -
  let ?bob = "\<lparr>user_id = 2, username = ''bob'', currentChallenge = None\<rparr>"
  have u: "user_findUnique db_two_owners ''bob'' = Some ?bob"
    by code_simp
  have c: "currentChallenge ?bob = None"
    by simp
  have a: "find (\<lambda>a. credentialID a = response_id (assertion_of ''C2'' ''ch-b'' [4, 5, 6] 1))
        (user_authenticators db_two_owners ?bob)
       = Some \<lparr>authenticator_id = 2, credentialID = ''C2'', credentialPublicKey = [4, 5, 6],
                counter = 0, transports = [], userId = 2\<rparr>"
    by code_simp
  have i: "response_id (assertion_of ''C2'' ''ch-b'' [4, 5, 6] 1) = ''C2''"
    by (simp add: assertion_of_def)
  have s: "response_challenge (assertion_of ''C2'' ''ch-b'' [4, 5, 6] 1) = ChallengeString ''ch-b''"
    by (simp add: assertion_of_def)
  then have n: "response_challenge (assertion_of ''C2'' ''ch-b'' [4, 5, 6] 1) \<noteq> ChallengeNull"
    by simp
  from login_verify_without_challenge[where cfg = cfg0 and now = 2000, OF u c a n] u a i s
  show ?thesis by simp
qed

section \<open>The failure causes of the login ceremony\<close>

text \<open>
  Counterexample to C8 as stated: login-challenge gives an unknown user and a user with
  no credential ("bob" before his registration is verified) the same reply, and
  authentication-verify answers the user with no credential with the reply of an
  unrecognized credential.
\<close>

theorem login_causes_not_distinguished:
  "user_findUnique db_alice_bob ''ghost'' = None
   \<and> map_option (user_authenticators db_alice_bob) (user_findUnique db_alice_bob ''bob'') = Some []
   \<and> login_challenge db_alice_bob ''ghost'' ''ch''
       = (Reply 404 (Error ''User not found or no authenticators registered''), db_alice_bob)
   \<and> login_challenge db_alice_bob ''bob'' ''ch''
       = (Reply 404 (Error ''User not found or no authenticators registered''), db_alice_bob)
   \<and> login_verify verifyAuthenticationResponse cfg0 2000 db_alice_bob ''bob''
        (assertion_of ''C1'' ''ch-b'' [1, 2, 3] 1)
       = (Reply 400 (Error ''Authenticator not recognized''), db_alice_bob)"
  by code_simp

text \<open>
  C8, as amended: login-challenge fails with one and the same 404 reply exactly when
  the user is not found or has zero registered credentials; authentication-verify
  fails with the 404 "User not found" when the user is absent, and with the 400
  "Authenticator not recognized" of an unrecognized credential when the user's
  credential set is empty.
\<close>

theorem login_failure_causes:
  "(login_challenge d uname chal
       = (Reply 404 (Error ''User not found or no authenticators registered''), d)
     \<longleftrightarrow> (case user_findUnique d uname of None \<Rightarrow> True
                                          | Some u \<Rightarrow> user_authenticators d u = []))
   \<and> (user_findUnique d uname = None
        \<longrightarrow> login_verify verify cfg now d uname response
              = (Reply 404 (Error ''User not found''), d))
   \<and> (\<forall>u. user_findUnique d uname = Some u \<and> user_authenticators d u = []
        \<longrightarrow> login_verify verify cfg now d uname response
              = (Reply 400 (Error ''Authenticator not recognized''), d))"
proof (intro conjI allI impI)
  show "login_challenge d uname chal
       = (Reply 404 (Error ''User not found or no authenticators registered''), d)
     \<longleftrightarrow> (case user_findUnique d uname of None \<Rightarrow> True
                                          | Some u \<Rightarrow> user_authenticators d u = [])"
    by (auto simp: login_challenge_def split: option.splits sum.splits)
next
  assume "user_findUnique d uname = None"
  then show "login_verify verify cfg now d uname response
              = (Reply 404 (Error ''User not found''), d)"
    by (simp add: login_verify_def)
next
  fix u
  assume "user_findUnique d uname = Some u \<and> user_authenticators d u = []"
  then show "login_verify verify cfg now d uname response
              = (Reply 400 (Error ''Authenticator not recognized''), d)"
    by (simp add: login_verify_def)
qed

text \<open>The amended C8 at the unknown user and at "bob" with his empty credential set.\<close>

theorem login_failure_causes_witness:
  "user_findUnique db_alice_bob ''ghost'' = None
   \<and> login_challenge db_alice_bob ''ghost'' ''ch''
       = (Reply 404 (Error ''User not found or no authenticators registered''), db_alice_bob)
   \<and> login_verify verifyAuthenticationResponse cfg0 2000 db_alice_bob ''ghost''
        (assertion_of ''C1'' ''ch'' [1, 2, 3] 1)
       = (Reply 404 (Error ''User not found''), db_alice_bob)"
proof -
  have n: "user_findUnique db_alice_bob ''ghost'' = None"
    by code_simp
  from login_failure_causes[where d = db_alice_bob and uname = "''ghost''" and chal = "''ch''"
      and verify = verifyAuthenticationResponse and cfg = cfg0 and now = 2000
      and response = "assertion_of ''C1'' ''ch'' [1, 2, 3] 1"] n
  show ?thesis by simp
qed

section \<open>Asking twice for a registration challenge\<close>

lemma find_append_last:
  "find P (xs @ [x]) = (case find P xs of None \<Rightarrow> (if P x then Some x else None) | Some y \<Rightarrow> Some y)"
  by (induction xs) auto

lemma register_challenge_eq:
  "register_challenge cfg d uname chal =
     (if uname = [] then (Reply 400 (Error ''Username is required''), d)
      else if user_findUnique d uname \<noteq> None
      then (Reply 400 (Error ''Username already taken''), d)
      else (Reply 200 (RegistrationOptions chal uname),
            d\<lparr>users := users d @
                 [\<lparr>user_id = Suc (user_seq d), username = uname, currentChallenge = Some chal\<rparr>],
              user_seq := Suc (user_seq d)\<rparr>))"
  by (auto simp: register_challenge_def user_create_def user_findUnique_None_iff
      split: option.splits dest: user_findUnique_SomeD)

lemma user_findUnique_register_challenge_other:
  "name \<noteq> uname \<Longrightarrow>
     user_findUnique (snd (register_challenge cfg d uname chal)) name = user_findUnique d name"
  by (simp add: register_challenge_eq)
     (simp add: user_findUnique_def find_append_last split: option.splits)

lemma user_findUnique_register_challenge_same:
  "uname \<noteq> [] \<Longrightarrow> user_findUnique (snd (register_challenge cfg d uname chal)) uname \<noteq> None"
  by (simp add: register_challenge_eq)
     (simp add: user_findUnique_def find_append_last split: option.splits)

lemma filter_username_absent:
  "user_findUnique d name = None \<Longrightarrow> filter (\<lambda>u. username u = name) (users d) = []"
  by (auto simp: user_findUnique_None_iff filter_empty_conv)

text \<open>
  C7: a register-challenge call followed immediately by a second one for the same
  username does not create two users: the second call is refused as "Username
  already taken" and returns the database of the first, which holds exactly one user
  of that name when none existed before. A register-challenge for a different username
  is answered as if the first had not been made, and leaves the first user's record as
  it is.
\<close>

theorem register_challenge_twice:
  "(let d1 = snd (register_challenge cfg d uname c1);
        d2 = snd (register_challenge cfg d1 uname c2)
    in d2 = d1
     \<and> (uname \<noteq> [] \<longrightarrow> fst (register_challenge cfg d1 uname c2)
                           = Reply 400 (Error ''Username already taken''))
     \<and> (uname \<noteq> [] \<and> user_findUnique d uname = None
          \<longrightarrow> length (filter (\<lambda>u. username u = uname) (users d2)) = 1)
     \<and> (other \<noteq> uname
          \<longrightarrow> fst (register_challenge cfg d1 other c3) = fst (register_challenge cfg d other c3)
            \<and> user_findUnique (snd (register_challenge cfg d1 other c3)) uname
                = user_findUnique d1 uname))"
proof -
  define d1 where "d1 = snd (register_challenge cfg d uname c1)"
  have same: "snd (register_challenge cfg d1 uname c2) = d1"
  proof (cases "uname = []")
    case True
    then show ?thesis by (simp add: register_challenge_eq)
  next
    case False
    then have "user_findUnique d1 uname \<noteq> None"
      unfolding d1_def by (rule user_findUnique_register_challenge_same)
    then show ?thesis by (simp add: register_challenge_eq)
  qed
  have taken: "fst (register_challenge cfg d1 uname c2) = Reply 400 (Error ''Username already taken'')"
    if "uname \<noteq> []"
  proof -
    from that have "user_findUnique d1 uname \<noteq> None"
      unfolding d1_def by (rule user_findUnique_register_challenge_same)
    with that show ?thesis by (simp add: register_challenge_eq)
  qed
  have one: "length (filter (\<lambda>u. username u = uname) (users d1)) = 1"
    if "uname \<noteq> []" and "user_findUnique d uname = None"
    using that unfolding d1_def
    by (simp add: register_challenge_eq filter_username_absent)
  have indep: "fst (register_challenge cfg d1 other c3) = fst (register_challenge cfg d other c3)"
    if "other \<noteq> uname"
  proof -
    from that have "user_findUnique d1 other = user_findUnique d other"
      unfolding d1_def by (rule user_findUnique_register_challenge_other)
    then show ?thesis by (simp add: register_challenge_eq)
  qed
  have kept: "user_findUnique (snd (register_challenge cfg d1 other c3)) uname
                = user_findUnique d1 uname"
    if "other \<noteq> uname"
    using that by (simp add: user_findUnique_register_challenge_other)
  from same taken one indep kept show ?thesis
    by (simp add: Let_def d1_def)
qed

text \<open>C7 on the empty registry, for "alice" asking twice and "bob" asking after her.\<close>

theorem register_challenge_twice_witness:
  "map username (users (snd (register_challenge cfg0
        (snd (register_challenge cfg0 empty_db ''alice'' ''ch-a'')) ''alice'' ''ch-a2'')))
     = [''alice'']
   \<and> fst (register_challenge cfg0 (snd (register_challenge cfg0 empty_db ''alice'' ''ch-a''))
            ''alice'' ''ch-a2'') = Reply 400 (Error ''Username already taken'')
   \<and> fst (register_challenge cfg0 (snd (register_challenge cfg0 empty_db ''alice'' ''ch-a''))
            ''bob'' ''ch-b'') = Reply 200 (RegistrationOptions ''ch-b'' ''bob'')
   \<and> length (filter (\<lambda>u. username u = ''alice'')
        (users (snd (register_challenge cfg0
           (snd (register_challenge cfg0 empty_db ''alice'' ''ch-a'')) ''alice'' ''ch-a2'')))) = 1"
proof -
  have n: "''alice'' \<noteq> []" by simp
  have a: "user_findUnique empty_db ''alice'' = None" by code_simp
  have o: "''bob'' \<noteq> ''alice''" by simp
  have f: "map username (users (snd (register_challenge cfg0 empty_db ''alice'' ''ch-a'')))
             = [''alice'']"
    by code_simp
  have b: "fst (register_challenge cfg0 empty_db ''bob'' ''ch-b'')
             = Reply 200 (RegistrationOptions ''ch-b'' ''bob'')"
    by code_simp
  note t = register_challenge_twice[where cfg = cfg0 and d = empty_db and uname = "''alice''"
      and ?c1.0 = "''ch-a''" and ?c2.0 = "''ch-a2''" and other = "''bob''" and ?c3.0 = "''ch-b''",
      unfolded Let_def]
  from t have e: "snd (register_challenge cfg0
        (snd (register_challenge cfg0 empty_db ''alice'' ''ch-a'')) ''alice'' ''ch-a2'')
      = snd (register_challenge cfg0 empty_db ''alice'' ''ch-a'')"
    by blast
  from t n have r: "fst (register_challenge cfg0
        (snd (register_challenge cfg0 empty_db ''alice'' ''ch-a'')) ''alice'' ''ch-a2'')
      = Reply 400 (Error ''Username already taken'')"
    by blast
  from t n a have l: "length (filter (\<lambda>u. username u = ''alice'')
        (users (snd (register_challenge cfg0
           (snd (register_challenge cfg0 empty_db ''alice'' ''ch-a'')) ''alice'' ''ch-a2'')))) = 1"
    by blast
  from t o have i: "fst (register_challenge cfg0
        (snd (register_challenge cfg0 empty_db ''alice'' ''ch-a'')) ''bob'' ''ch-b'')
      = fst (register_challenge cfg0 empty_db ''bob'' ''ch-b'')"
    by blast
  from e f r l i b show ?thesis
    by simp
qed

section \<open>The validity of a session token\<close>

lemma login_verify_token:
  assumes "fst (login_verify verify cfg t d uname response) = Reply 200 (VerifiedToken tok)"
  shows "jwt_sign uname (JWT_SECRET cfg) one_hour t = Returned tok"
proof (cases "user_findUnique d uname")
  case None
  with assms show ?thesis by (simp add: login_verify_def)
next
  case (Some u)
  then have name: "username u = uname"
    by (simp add: user_findUnique_SomeD)
  show ?thesis
  proof (cases "find (\<lambda>a. credentialID a = response_id response) (user_authenticators d u)")
    case None
    with Some assms show ?thesis by (simp add: login_verify_def)
  next
    case (Some auth)
    from assms name show ?thesis
      unfolding login_verify_found[OF \<open>user_findUnique d uname = Some u\<close> Some]
      by (auto split: outcome.splits option.splits if_splits)
  qed
qed

text \<open>
  C9: every session token that a successful login issues binds the authenticated
  username and is valid for one hour: presented as a bearer token 59 minutes after the
  login, the middleware accepts it and hands on its payload with that username, and the
  protected route greets the user; presented 61 minutes after the login, the token has
  expired and the middleware rejects it with 403.
\<close>

theorem session_token_one_hour:
  assumes "fst (login_verify verify cfg t d uname response) = Reply 200 (VerifiedToken tok)"
  shows "token_username tok = uname
    \<and> verifyToken cfg (t + 59 * 60) (Some [Text ''Bearer'', Jwt tok]) = Inr tok
    \<and> profile cfg (t + 59 * 60) (Some [Text ''Bearer'', Jwt tok])
        = Reply 200 (Message (''Welcome, '' @ uname @ ''! This is a protected resource.''))
    \<and> jwt_verify (Jwt tok) (JWT_SECRET cfg) (t + 61 * 60) = Inl TokenExpiredError
    \<and> verifyToken cfg (t + 61 * 60) (Some [Text ''Bearer'', Jwt tok]) = Inl 403
    \<and> profile cfg (t + 61 * 60) (Some [Text ''Bearer'', Jwt tok])
        = Reply 403 (StatusText ''Forbidden'')"
proof -
  from assms have "jwt_sign uname (JWT_SECRET cfg) one_hour t = Returned tok"
    by (rule login_verify_token)
  then obtain k where k: "JWT_SECRET cfg = Some k" "k \<noteq> []"
    and tok: "tok = \<lparr>token_username = uname, iat = t, exp = t + one_hour, signed_with = k\<rparr>"
    by (auto simp: jwt_sign_def split: option.splits if_splits)
  have acc: "jwt_verify (Jwt tok) (JWT_SECRET cfg) (t + 59 * 60) = Inr tok"
    by (simp add: tok k jwt_verify_def one_hour_def)
  have rej: "jwt_verify (Jwt tok) (JWT_SECRET cfg) (t + 61 * 60) = Inl TokenExpiredError"
    by (simp add: tok k jwt_verify_def one_hour_def)
  have name: "token_username tok = uname"
    by (simp add: tok)
  from acc rej name show ?thesis
    by (simp add: verifyToken_def profile_def)
qed

text \<open>C9 at the login of "alice" at second 1000 of the clock.\<close>

theorem session_token_one_hour_witness:
  "fst (login_verify verifyAuthenticationResponse cfg0 1000 db_two_owners ''alice''
          (assertion_of ''C1'' ''ch-1'' [1, 2, 3] 1))
     = Reply 200 (VerifiedToken
         \<lparr>token_username = ''alice'', iat = 1000, exp = 4600, signed_with = ''s3cret''\<rparr>)
   \<and> verifyToken cfg0 (1000 + 59 * 60) (Some [Text ''Bearer'', Jwt
         \<lparr>token_username = ''alice'', iat = 1000, exp = 4600, signed_with = ''s3cret''\<rparr>])
       = Inr \<lparr>token_username = ''alice'', iat = 1000, exp = 4600, signed_with = ''s3cret''\<rparr>
   \<and> verifyToken cfg0 (1000 + 61 * 60) (Some [Text ''Bearer'', Jwt
         \<lparr>token_username = ''alice'', iat = 1000, exp = 4600, signed_with = ''s3cret''\<rparr>])
       = Inl 403"
proof -
  have l: "fst (login_verify verifyAuthenticationResponse cfg0 1000 db_two_owners ''alice''
          (assertion_of ''C1'' ''ch-1'' [1, 2, 3] 1))
     = Reply 200 (VerifiedToken
         \<lparr>token_username = ''alice'', iat = 1000, exp = 4600, signed_with = ''s3cret''\<rparr>)"
    by code_simp
  from session_token_one_hour[OF l] l show ?thesis
    by blast
qed

section \<open>Writes that keep the keys of the rows\<close>

lemma find_username_update:
  "find (\<lambda>u. username u = name)
        (map (\<lambda>x. if user_id x = uid then x\<lparr>currentChallenge := c\<rparr> else x) xs)
     = map_option (\<lambda>x. if user_id x = uid then x\<lparr>currentChallenge := c\<rparr> else x)
         (find (\<lambda>u. username u = name) xs)"
  by (rule find_map_preserving) simp

lemma filter_username_update:
  "filter (\<lambda>u. username u = name)
        (map (\<lambda>x. if user_id x = uid then x\<lparr>currentChallenge := c\<rparr> else x) xs)
     = map (\<lambda>x. if user_id x = uid then x\<lparr>currentChallenge := c\<rparr> else x)
         (filter (\<lambda>u. username u = name) xs)"
  by (rule filter_map_preserving) simp

lemma map_username_update:
  "map username (map (\<lambda>x. if user_id x = uid then x\<lparr>currentChallenge := c\<rparr> else x) xs)
     = map username xs"
  by (induction xs) auto

lemma usernames_user_update:
  "user_update d uid c = Inr d' \<Longrightarrow> map username (users d') = map username (users d)"
  by (auto simp: user_update_def map_username_update split: if_splits)

lemma usernames_register_verify:
  "map username (users (snd (register_verify vr cfg d uname rr))) = map username (users d)"
proof (cases "user_findUnique d uname")
  case None
  then show ?thesis by (simp add: register_verify_def)
next
  case (Some u)
  show ?thesis
    unfolding register_verify_found[OF Some]
    by (simp add: map_username_update split: outcome.splits option.splits)
qed

lemma usernames_login_verify:
  "map username (users (snd (login_verify va cfg now d uname ar))) = map username (users d)"
proof (cases "user_findUnique d uname")
  case None
  then show ?thesis by (simp add: login_verify_def)
next
  case (Some u)
  show ?thesis
  proof (cases "find (\<lambda>a. credentialID a = response_id ar) (user_authenticators d u)")
    case None
    with Some show ?thesis by (simp add: login_verify_def)
  next
    case (Some auth)
    show ?thesis
      unfolding login_verify_found[OF \<open>user_findUnique d uname = Some u\<close> Some]
      by (simp add: map_username_update split: outcome.splits option.splits)
  qed
qed

lemma login_challenge_eq:
  "login_challenge d uname chal =
     (case user_findUnique d uname of
        None \<Rightarrow> (Reply 404 (Error ''User not found or no authenticators registered''), d)
      | Some u \<Rightarrow>
          if user_authenticators d u = []
          then (Reply 404 (Error ''User not found or no authenticators registered''), d)
          else (Reply 200 (AuthenticationOptions chal
                  (map (\<lambda>auth. (credentialID auth, transports auth)) (user_authenticators d u))),
                d\<lparr>users := map (\<lambda>x. if user_id x = user_id u
                                     then x\<lparr>currentChallenge := Some chal\<rparr> else x) (users d)\<rparr>))"
  by (auto simp: login_challenge_def user_update_def split: option.splits
      dest: user_findUnique_SomeD)

lemma usernames_login_challenge:
  "map username (users (snd (login_challenge d uname chal))) = map username (users d)"
  by (simp add: login_challenge_eq map_username_update split: option.splits)

lemma distinct_usernames_register_challenge:
  "distinct (map username (users d)) \<Longrightarrow>
     distinct (map username (users (snd (register_challenge cfg d uname chal))))"
  by (auto simp: register_challenge_eq user_findUnique_None_iff)

lemma distinct_usernames_handle:
  "distinct (map username (users d)) \<Longrightarrow>
     distinct (map username (users (snd (handle vr va cfg d req))))"
  by (cases req)
     (simp_all add: distinct_usernames_register_challenge usernames_register_verify
        usernames_login_challenge usernames_login_verify)

lemma distinct_usernames_run:
  "distinct (map username (users d)) \<Longrightarrow>
     distinct (map username (users (run vr va cfg d reqs)))"
  by (induction reqs arbitrary: d) (simp_all add: distinct_usernames_handle)

lemma filter_username_fresh:
  "username a \<notin> username ` set xs \<Longrightarrow> filter (\<lambda>u. username u = username a) xs = []"
  by (induction xs) auto

lemma distinct_usernames_filter:
  "distinct (map username xs) \<Longrightarrow> length (filter (\<lambda>u. username u = name) xs) \<le> 1"
  by (induction xs) (auto simp: filter_username_fresh)

lemma distinct_usernames_filter_found:
  "distinct (map username xs) \<Longrightarrow> find (\<lambda>u. username u = name) xs = Some u \<Longrightarrow>
     filter (\<lambda>u. username u = name) xs = [u]"
  by (induction xs) (auto simp: filter_username_fresh split: if_splits)

lemma length_concat_challenges:
  "length (concat (map (\<lambda>u. case currentChallenge u of None \<Rightarrow> [] | Some c \<Rightarrow> [c]) xs))
     \<le> length xs"
  by (induction xs) (auto split: option.splits)

lemma length_pending:
  "length (pending d name) \<le> length (filter (\<lambda>u. username u = name) (users d))"
  unfolding pending_def by (rule length_concat_challenges)

section \<open>One pending challenge per user\<close>

lemma pending_login_challenge:
  assumes "distinct (map username (users d))"
    and "login_challenge d uname chal = (Reply 200 b, d')"
  shows "pending d' uname = [chal]"
proof -
  from assms(2) obtain u where u: "user_findUnique d uname = Some u"
    and d': "d' = d\<lparr>users := map (\<lambda>x. if user_id x = user_id u
                                     then x\<lparr>currentChallenge := Some chal\<rparr> else x) (users d)\<rparr>"
    by (auto simp: login_challenge_eq split: option.splits if_splits)
  from assms(1) u have "filter (\<lambda>x. username x = uname) (users d) = [u]"
    by (simp add: user_findUnique_def distinct_usernames_filter_found)
  then show ?thesis
    by (simp add: pending_def d' filter_username_update)
qed

lemma pending_register_challenge:
  assumes "register_challenge cfg d uname chal = (Reply 200 b, d')"
  shows "pending d' uname = [chal]"
proof -
  from assms have n: "user_findUnique d uname = None"
    and d': "d' = d\<lparr>users := users d @
                 [\<lparr>user_id = Suc (user_seq d), username = uname, currentChallenge = Some chal\<rparr>],
              user_seq := Suc (user_seq d)\<rparr>"
    by (auto simp: register_challenge_eq split: if_splits)
  from n show ?thesis
    by (simp add: pending_def d' filter_username_absent)
qed

text \<open>
  C6: after any sequence of requests on an empty registry, every username has at most
  one pending challenge; and a challenge route that issues a challenge in such a state,
  login-challenge for a user with credentials or register-challenge for a new
  username, leaves the issued challenge as the only pending one of that user, whatever
  was pending before.
\<close>

theorem one_pending_challenge:
  "(let d = run vr va cfg empty_db reqs in
      length (pending d name) \<le> 1
    \<and> (\<forall>b d'. login_challenge d uname chal = (Reply 200 b, d') \<longrightarrow> pending d' uname = [chal])
    \<and> (\<forall>b d'. register_challenge cfg d uname chal = (Reply 200 b, d')
          \<longrightarrow> pending d' uname = [chal]))"
proof -
  define d where "d = run vr va cfg empty_db reqs"
  have dist: "distinct (map username (users d))"
    unfolding d_def by (rule distinct_usernames_run) (simp add: empty_db_def)
  have "length (pending d name) \<le> length (filter (\<lambda>u. username u = name) (users d))"
    by (rule length_pending)
  also from dist have "\<dots> \<le> 1"
    by (rule distinct_usernames_filter)
  finally have one: "length (pending d name) \<le> 1" .
  from one dist show ?thesis
    unfolding Let_def d_def [symmetric]
    by (blast intro: pending_login_challenge pending_register_challenge)
qed

text \<open>
  C6 at the registry after seven requests, where "alice" holds the challenge \<open>ch-2\<close>:
  a further login-challenge leaves her with the new challenge alone.
\<close>

theorem one_pending_challenge_witness:
  "pending db_second_login ''alice'' = [''ch-2'']
   \<and> fst (login_challenge db_second_login ''alice'' ''ch-3'')
       = Reply 200 (AuthenticationOptions ''ch-3'' [(''C1'', [])])
   \<and> pending (snd (login_challenge db_second_login ''alice'' ''ch-3'')) ''alice'' = [''ch-3'']
   \<and> length (pending db_second_login ''bob'') \<le> 1"
proof -
  let ?reqs = "[RegisterChallenge ''alice'' ''ch-a'',
      RegisterVerify ''alice'' (registration_of ''C1'' ''ch-a'' [1, 2, 3] 0),
      RegisterChallenge ''bob'' ''ch-b'',
      RegisterVerify ''bob'' (registration_of ''C2'' ''ch-b'' [4, 5, 6] 0),
      LoginChallenge ''alice'' ''ch-1'',
      LoginVerify 1000 ''alice'' (assertion_of ''C1'' ''ch-1'' [1, 2, 3] 1),
      LoginChallenge ''alice'' ''ch-2'']"
  have r: "run verifyRegistrationResponse verifyAuthenticationResponse cfg0 empty_db ?reqs
             = db_second_login"
    by code_simp
  have p: "pending db_second_login ''alice'' = [''ch-2'']"
    by code_simp
  have f: "fst (login_challenge db_second_login ''alice'' ''ch-3'')
     = Reply 200 (AuthenticationOptions ''ch-3'' [(''C1'', [])])"
    by code_simp
  then have l: "login_challenge db_second_login ''alice'' ''ch-3''
     = (Reply 200 (AuthenticationOptions ''ch-3'' [(''C1'', [])]),
        snd (login_challenge db_second_login ''alice'' ''ch-3''))"
    by (metis prod.collapse)
  note t = one_pending_challenge[where vr = verifyRegistrationResponse
      and va = verifyAuthenticationResponse and cfg = cfg0 and reqs = ?reqs
      and name = "''bob''" and uname = "''alice''" and chal = "''ch-3''",
      unfolded Let_def r]
  from t have b: "length (pending db_second_login ''bob'') \<le> 1"
    by blast
  from t l have n: "pending (snd (login_challenge db_second_login ''alice'' ''ch-3'')) ''alice''
      = [''ch-3'']"
    by blast
  from p f n b show ?thesis
    by simp
qed

section \<open>The state that a challenge and an accepted response leave\<close>

lemma user_findUnique_users_update:
  assumes "user_findUnique d uname = Some u"
    and "users d' = map (\<lambda>x. if user_id x = user_id u then x\<lparr>currentChallenge := c\<rparr> else x)
                        (users d)"
  shows "user_findUnique d' uname = Some (u\<lparr>currentChallenge := c\<rparr>)"
  using assms by (simp add: user_findUnique_def find_username_update)

lemma login_challenge_issued:
  assumes "user_findUnique d uname = Some u"
    and "user_authenticators d u \<noteq> []"
  shows "login_challenge d uname chal =
     (Reply 200 (AuthenticationOptions chal
        (map (\<lambda>auth. (credentialID auth, transports auth)) (user_authenticators d u))),
      d\<lparr>users := map (\<lambda>x. if user_id x = user_id u
                           then x\<lparr>currentChallenge := Some chal\<rparr> else x) (users d)\<rparr>)"
  using assms by (simp add: login_challenge_eq)

text \<open>
  A login whose response passes every check of the library: the counter of the
  presented credential is written and the challenge cleared, and the reply carries the
  token if the signing of it returns.
\<close>

lemma login_verify_accepted:
  assumes u: "user_findUnique d uname = Some u"
    and a: "find (\<lambda>a. credentialID a = response_id r) (user_authenticators d u) = Some auth"
    and c: "currentChallenge u = Some chal"
    and ok: "acceptable cfg auth chal r"
  shows "login_verify verifyAuthenticationResponse cfg now d uname r =
     ((case jwt_sign uname (JWT_SECRET cfg) one_hour now of
         Threw \<Rightarrow> Reply 500 (Error ''Internal server error'')
       | Returned token \<Rightarrow> Reply 200 (VerifiedToken token)),
      d\<lparr>authenticators :=
           filter (\<lambda>x. authenticator_id x \<noteq> authenticator_id auth) (authenticators d)
           @ map (\<lambda>x. x\<lparr>counter := response_counter r\<rparr>)
                 (filter (\<lambda>x. authenticator_id x = authenticator_id auth) (authenticators d)),
         users := map (\<lambda>x. if user_id x = user_id u
                            then x\<lparr>currentChallenge := None\<rparr> else x) (users d)\<rparr>)"
proof -
  from u have "username u = uname"
    by (simp add: user_findUnique_SomeD)
  with c ok show ?thesis
    unfolding login_verify_found[OF u a]
    by (auto simp: acceptable_def verifyAuthenticationResponse_def strict_equal_def)
qed

lemma register_verify_accepted:
  assumes u: "user_findUnique d uname = Some u"
    and c: "currentChallenge u = Some chal"
    and ok: "registrable cfg chal rr"
  shows "register_verify verifyRegistrationResponse cfg d uname rr =
     (Reply 200 VerifiedTrue,
      d\<lparr>authenticators := authenticators d @
           [\<lparr>authenticator_id = Suc (authenticator_seq d), credentialID = reg_id rr,
             credentialPublicKey = reg_publicKey rr, counter = reg_counter rr,
             transports = (case reg_transports rr of None \<Rightarrow> [] | Some t \<Rightarrow> t),
             userId = user_id u\<rparr>],
         authenticator_seq := Suc (authenticator_seq d),
         users := map (\<lambda>x. if user_id x = user_id u
                            then x\<lparr>currentChallenge := None\<rparr> else x) (users d)\<rparr>)"
  using c ok unfolding register_verify_found[OF u]
  by (simp add: registrable_def verifyRegistrationResponse_def strict_equal_def)

lemma register_verify_no_pending:
  assumes u: "user_findUnique d uname = Some u"
    and c: "currentChallenge u = None"
    and n: "reg_challenge rr \<noteq> ChallengeNull"
  shows "register_verify verifyRegistrationResponse cfg d uname rr
           = (Reply 500 (Error ''Internal server error''), d)"
proof -
  from n have "\<not> strict_equal (reg_challenge rr) None"
    by (simp add: strict_equal_def split: challenge_value.splits)
  then show ?thesis
    by (simp add: register_verify_found[OF u] c verifyRegistrationResponse_def)
qed

lemma find_append_cases:
  "find P (xs @ ys) = (case find P xs of None \<Rightarrow> find P ys | Some x \<Rightarrow> Some x)"
  by (induction xs) auto

lemma find_filter_excluded: "find P (filter (\<lambda>x. \<not> P x) xs) = None"
  by (induction xs) auto

lemma counter_of_moved_row:
  "a \<in> set xs \<Longrightarrow>
     map_option counter
       (find (\<lambda>x. authenticator_id x = aid) (map (\<lambda>x. x\<lparr>counter := n\<rparr>)
          (filter (\<lambda>x. authenticator_id x = aid) xs))) = (if authenticator_id a = aid then Some n
            else map_option counter (find (\<lambda>x. authenticator_id x = aid) (map (\<lambda>x. x\<lparr>counter := n\<rparr>)
          (filter (\<lambda>x. authenticator_id x = aid) xs))))"
  by (induction xs) auto

lemma counter_after_update:
  assumes "a \<in> set xs"
  shows "map_option counter
       (find (\<lambda>x. authenticator_id x = authenticator_id a)
          (filter (\<lambda>x. authenticator_id x \<noteq> authenticator_id a) xs
           @ map (\<lambda>x. x\<lparr>counter := n\<rparr>)
                 (filter (\<lambda>x. authenticator_id x = authenticator_id a) xs))) = Some n"
proof -
  have "find (\<lambda>x. authenticator_id x = authenticator_id a)
          (filter (\<lambda>x. authenticator_id x \<noteq> authenticator_id a) xs) = None"
    by (rule find_filter_excluded)
  with counter_of_moved_row[OF assms, of "authenticator_id a" n] show ?thesis
    by (simp add: find_append_cases)
qed

lemma credentialID_kept_by_update:
  assumes "a \<in> set xs" and "userId a = uid"
  shows "credentialID a \<in> set (map credentialID (filter (\<lambda>x. userId x = uid)
           (filter (\<lambda>x. authenticator_id x \<noteq> authenticator_id a) xs
            @ map (\<lambda>x. x\<lparr>counter := n\<rparr>)
                  (filter (\<lambda>x. authenticator_id x = authenticator_id a) xs))))"
proof -
  from assms have "a\<lparr>counter := n\<rparr> \<in> set (filter (\<lambda>x. userId x = uid)
           (filter (\<lambda>x. authenticator_id x \<noteq> authenticator_id a) xs
            @ map (\<lambda>x. x\<lparr>counter := n\<rparr>)
                  (filter (\<lambda>x. authenticator_id x = authenticator_id a) xs)))"
    by auto
  then have "credentialID (a\<lparr>counter := n\<rparr>) \<in> set (map credentialID (filter (\<lambda>x. userId x = uid)
           (filter (\<lambda>x. authenticator_id x \<noteq> authenticator_id a) xs
            @ map (\<lambda>x. x\<lparr>counter := n\<rparr>)
                  (filter (\<lambda>x. authenticator_id x = authenticator_id a) xs))))"
    by (metis image_eqI set_map)
  then show ?thesis by simp
qed

text \<open>The registration ceremony: issue, first consume, later consumes.\<close>

lemma registration_single_use:
  assumes new: "uname \<noteq> []" "user_findUnique d uname = None"
    and ok: "registrable cfg chal rr"
  shows "(let d1 = snd (register_challenge cfg d uname chal);
              d2 = snd (register_verify verifyRegistrationResponse cfg d1 uname rr)
          in map_option currentChallenge (user_findUnique d1 uname) = Some (Some chal)
           \<and> fst (register_verify verifyRegistrationResponse cfg d1 uname rr)
               = Reply 200 VerifiedTrue
           \<and> map_option currentChallenge (user_findUnique d2 uname) = Some None
           \<and> (\<forall>rr'. reg_challenge rr' \<noteq> ChallengeNull
                 \<longrightarrow> register_verify verifyRegistrationResponse cfg d2 uname rr'
                       = (Reply 500 (Error ''Internal server error''), d2))
           \<and> (\<forall>rr'. failed (fst (register_verify verifyRegistrationResponse cfg d1 uname rr'))
                 \<longrightarrow> snd (register_verify verifyRegistrationResponse cfg d1 uname rr') = d1))"
proof -
  define d1 where "d1 = snd (register_challenge cfg d uname chal)"
  define d2 where "d2 = snd (register_verify verifyRegistrationResponse cfg d1 uname rr)"
  define u1 where "u1 = \<lparr>user_id = Suc (user_seq d), username = uname,
                          currentChallenge = Some chal\<rparr>"
  define u2 where "u2 = u1\<lparr>currentChallenge := None\<rparr>"
  from new have d1: "d1 = d\<lparr>users := users d @ [u1], user_seq := Suc (user_seq d)\<rparr>"
    unfolding d1_def u1_def by (simp add: register_challenge_eq)
  from new(2) have fu1: "user_findUnique d1 uname = Some u1"
    by (simp add: user_findUnique_def d1 find_append_last u1_def)
  have c1: "currentChallenge u1 = Some chal"
    by (simp add: u1_def)
  note acc = register_verify_accepted[OF fu1 c1 ok]
  from acc have users2: "users d2 = map (\<lambda>x. if user_id x = user_id u1
                            then x\<lparr>currentChallenge := None\<rparr> else x) (users d1)"
    unfolding d2_def by simp
  have fu2: "user_findUnique d2 uname = Some u2"
    unfolding u2_def by (rule user_findUnique_users_update[OF fu1 users2])
  have c2: "currentChallenge u2 = None"
    by (simp add: u2_def)
  have 1: "map_option currentChallenge (user_findUnique d1 uname) = Some (Some chal)"
    by (simp add: fu1 c1)
  have 2: "fst (register_verify verifyRegistrationResponse cfg d1 uname rr) = Reply 200 VerifiedTrue"
    by (simp add: acc)
  have 3: "map_option currentChallenge (user_findUnique d2 uname) = Some None"
    by (simp add: fu2 c2)
  have 4: "register_verify verifyRegistrationResponse cfg d2 uname rr'
             = (Reply 500 (Error ''Internal server error''), d2)"
    if "reg_challenge rr' \<noteq> ChallengeNull" for rr'
    using fu2 c2 that by (rule register_verify_no_pending)
  from 1 2 3 4 show ?thesis
    unfolding Let_def d1_def [symmetric] d2_def [symmetric]
    by (simp add: register_verify_failed)
qed

text \<open>The login ceremony: issue, first consume, later consumes.\<close>

lemma login_single_use:
  assumes u: "user_findUnique d uname = Some u"
    and a: "find (\<lambda>a. credentialID a = response_id r) (user_authenticators d u) = Some auth"
    and ok: "acceptable cfg auth chal r"
    and k: "key_configured cfg"
  shows "(let d1 = snd (login_challenge d uname chal);
              d2 = snd (login_verify verifyAuthenticationResponse cfg t1 d1 uname r)
          in map_option currentChallenge (user_findUnique d1 uname) = Some (Some chal)
           \<and> fst (login_verify verifyAuthenticationResponse cfg t1 d1 uname r)
               = Reply 200 (VerifiedToken
                   \<lparr>token_username = uname, iat = t1, exp = t1 + one_hour,
                    signed_with = the (JWT_SECRET cfg)\<rparr>)
           \<and> map_option currentChallenge (user_findUnique d2 uname) = Some None
           \<and> response_id r \<in> set (map credentialID (user_authenticators d2 u))
           \<and> (\<forall>r'. response_challenge r' \<noteq> ChallengeNull
                 \<longrightarrow> login_verify verifyAuthenticationResponse cfg t2 d2 uname r'
                       = (if response_id r' \<in> set (map credentialID (user_authenticators d2 u))
                          then Reply 500 (Error ''Internal server error'')
                          else Reply 400 (Error ''Authenticator not recognized''), d2))
           \<and> (\<forall>r'. failed (fst (login_verify verifyAuthenticationResponse cfg t1 d1 uname r'))
                 \<longrightarrow> snd (login_verify verifyAuthenticationResponse cfg t1 d1 uname r') = d1))"
proof -
  define d1 where "d1 = snd (login_challenge d uname chal)"
  define d2 where "d2 = snd (login_verify verifyAuthenticationResponse cfg t1 d1 uname r)"
  define u1 where "u1 = u\<lparr>currentChallenge := Some chal\<rparr>"
  define u2 where "u2 = u1\<lparr>currentChallenge := None\<rparr>"
  from a have "user_authenticators d u \<noteq> []"
    by auto
  with u have d1: "d1 = d\<lparr>users := map (\<lambda>x. if user_id x = user_id u
                           then x\<lparr>currentChallenge := Some chal\<rparr> else x) (users d)\<rparr>"
    unfolding d1_def by (simp add: login_challenge_issued)
  have fu1: "user_findUnique d1 uname = Some u1"
    unfolding u1_def by (rule user_findUnique_users_update[OF u]) (simp add: d1)
  have "user_authenticators d1 u1 = user_authenticators d u"
    by (simp add: user_authenticators_def d1 u1_def)
  with a
  have a1: "find (\<lambda>a. credentialID a = response_id r) (user_authenticators d1 u1) = Some auth"
    by simp
  have c1: "currentChallenge u1 = Some chal"
    by (simp add: u1_def)
  note acc = login_verify_accepted[OF fu1 a1 c1 ok, of t1, unfolded jwt_sign_configured[OF k]]
  from acc have users2: "users d2 = map (\<lambda>x. if user_id x = user_id u1
                            then x\<lparr>currentChallenge := None\<rparr> else x) (users d1)"
    and auths2: "authenticators d2 =
           filter (\<lambda>x. authenticator_id x \<noteq> authenticator_id auth) (authenticators d1)
           @ map (\<lambda>x. x\<lparr>counter := response_counter r\<rparr>)
                 (filter (\<lambda>x. authenticator_id x = authenticator_id auth) (authenticators d1))"
    unfolding d2_def by simp_all
  have fu2: "user_findUnique d2 uname = Some u2"
    unfolding u2_def by (rule user_findUnique_users_update[OF fu1 users2])
  have c2: "currentChallenge u2 = None"
    by (simp add: u2_def)
  have same: "user_authenticators d2 u2 = user_authenticators d2 u"
    by (simp add: user_authenticators_def u2_def u1_def)
  from find_authenticator_SomeD[OF a1]
  have mem: "auth \<in> set (authenticators d1)" and own: "userId auth = user_id u"
    and cid: "credentialID auth = response_id r"
    by (simp_all add: u1_def)
  have kept: "response_id r \<in> set (map credentialID (user_authenticators d2 u))"
    unfolding user_authenticators_def auths2 cid [symmetric]
    using mem own by (rule credentialID_kept_by_update)
  have replay: "login_verify verifyAuthenticationResponse cfg t2 d2 uname r'
        = (if response_id r' \<in> set (map credentialID (user_authenticators d2 u))
           then Reply 500 (Error ''Internal server error'')
           else Reply 400 (Error ''Authenticator not recognized''), d2)"
    if "response_challenge r' \<noteq> ChallengeNull" for r'
    using login_verify_no_pending[OF fu2 c2 that] by (simp add: same)
  have 1: "map_option currentChallenge (user_findUnique d1 uname) = Some (Some chal)"
    by (simp add: fu1 c1)
  have 2: "fst (login_verify verifyAuthenticationResponse cfg t1 d1 uname r)
               = Reply 200 (VerifiedToken
                   \<lparr>token_username = uname, iat = t1, exp = t1 + one_hour,
                    signed_with = the (JWT_SECRET cfg)\<rparr>)"
    by (simp add: acc)
  have 3: "map_option currentChallenge (user_findUnique d2 uname) = Some None"
    by (simp add: fu2 c2)
  from 1 2 3 kept replay show ?thesis
    unfolding Let_def d1_def [symmetric] d2_def [symmetric]
    by (simp add: login_verify_failed[OF k])
qed

section \<open>A challenge is used once\<close>

text \<open>
  Counterexample to C4 as stated. "alice" logs in with the challenge \<open>ch-1\<close> that was
  issued to her; a second login that presents \<open>ch-1\<close> again, with a fresh counter, is
  answered with the generic 500 "Internal server error" and not with a challenge
  mismatch, and so is a second registration of "bob" that presents his challenge
  \<open>ch-b\<close> again. Presenting the issued value is not enough to succeed: with a foreign
  origin the login gets the same 500. And with the signing key unset the login that
  presents \<open>ch-1\<close> fails with the 500 after it has cleared the stored challenge.
\<close>

theorem replayed_challenge_reply:
  "fst (login_verify verifyAuthenticationResponse cfg0 1000 db_two_owners ''alice''
          (assertion_of ''C1'' ''ch-1'' [1, 2, 3] 1))
     = Reply 200 (VerifiedToken
         \<lparr>token_username = ''alice'', iat = 1000, exp = 4600, signed_with = ''s3cret''\<rparr>)
   \<and> fst (login_verify verifyAuthenticationResponse cfg0 1001
          (snd (login_verify verifyAuthenticationResponse cfg0 1000 db_two_owners ''alice''
                  (assertion_of ''C1'' ''ch-1'' [1, 2, 3] 1)))
          ''alice'' (assertion_of ''C1'' ''ch-1'' [1, 2, 3] 2))
     = Reply 500 (Error ''Internal server error'')
   \<and> fst (register_verify verifyRegistrationResponse cfg0 db_alice_bob ''bob''
          (registration_of ''C2'' ''ch-b'' [4, 5, 6] 0))
     = Reply 200 VerifiedTrue
   \<and> fst (register_verify verifyRegistrationResponse cfg0
          (snd (register_verify verifyRegistrationResponse cfg0 db_alice_bob ''bob''
                  (registration_of ''C2'' ''ch-b'' [4, 5, 6] 0)))
          ''bob'' (registration_of ''C3'' ''ch-b'' [7, 8, 9] 0))
     = Reply 500 (Error ''Internal server error'')
   \<and> fst (login_verify verifyAuthenticationResponse cfg0 1000 db_two_owners ''alice''
          ((assertion_of ''C1'' ''ch-1'' [1, 2, 3] 1)\<lparr>response_origin := ''http://evil.example''\<rparr>))
     = Reply 500 (Error ''Internal server error'')
   \<and> fst (login_verify verifyAuthenticationResponse (cfg0\<lparr>JWT_SECRET := None\<rparr>) 1000
          db_two_owners ''alice'' (assertion_of ''C1'' ''ch-1'' [1, 2, 3] 1))
     = Reply 500 (Error ''Internal server error'')
   \<and> pending (snd (login_verify verifyAuthenticationResponse (cfg0\<lparr>JWT_SECRET := None\<rparr>) 1000
          db_two_owners ''alice'' (assertion_of ''C1'' ''ch-1'' [1, 2, 3] 1))) ''alice'' = []"
  by code_simp

text \<open>
  C4, as amended: for every user and challenge value, an issue of that challenge
  followed by a consume that presents the same value in a response passing the other
  checks succeeds exactly once, in the registration ceremony (register-challenge for a
  new username, then register-verify) and in the login ceremony (login-challenge for a
  user owning the presented credential, then login-verify, with the signing key
  configured). On the successful consume the stored challenge is cleared, so every
  later consume that presents the same value, or any challenge but \<open>null\<close>, fails: with
  the generic 500 "Internal server error", and for a login that names a credential the
  user does not own with the 400 "Authenticator not recognized". A consume that
  fails while the challenge is stored leaves it stored.
\<close>

theorem challenge_single_use:
  "(uname \<noteq> [] \<and> user_findUnique d uname = None \<and> registrable cfg chal rr
      \<longrightarrow> (let d1 = snd (register_challenge cfg d uname chal);
               d2 = snd (register_verify verifyRegistrationResponse cfg d1 uname rr)
           in map_option currentChallenge (user_findUnique d1 uname) = Some (Some chal)
            \<and> fst (register_verify verifyRegistrationResponse cfg d1 uname rr)
                = Reply 200 VerifiedTrue
            \<and> map_option currentChallenge (user_findUnique d2 uname) = Some None
            \<and> (\<forall>rr'. reg_challenge rr' \<noteq> ChallengeNull
                  \<longrightarrow> register_verify verifyRegistrationResponse cfg d2 uname rr'
                        = (Reply 500 (Error ''Internal server error''), d2))
            \<and> (\<forall>rr'. failed (fst (register_verify verifyRegistrationResponse cfg d1 uname rr'))
                  \<longrightarrow> snd (register_verify verifyRegistrationResponse cfg d1 uname rr') = d1)))
   \<and> (user_findUnique d uname = Some u
       \<and> find (\<lambda>a. credentialID a = response_id r) (user_authenticators d u) = Some auth
       \<and> acceptable cfg auth chal r \<and> key_configured cfg
      \<longrightarrow> (let d1 = snd (login_challenge d uname chal);
               d2 = snd (login_verify verifyAuthenticationResponse cfg t1 d1 uname r)
           in map_option currentChallenge (user_findUnique d1 uname) = Some (Some chal)
            \<and> fst (login_verify verifyAuthenticationResponse cfg t1 d1 uname r)
                = Reply 200 (VerifiedToken
                    \<lparr>token_username = uname, iat = t1, exp = t1 + one_hour,
                     signed_with = the (JWT_SECRET cfg)\<rparr>)
            \<and> map_option currentChallenge (user_findUnique d2 uname) = Some None
            \<and> response_id r \<in> set (map credentialID (user_authenticators d2 u))
            \<and> (\<forall>r'. response_challenge r' \<noteq> ChallengeNull
                  \<longrightarrow> login_verify verifyAuthenticationResponse cfg t2 d2 uname r'
                        = (if response_id r' \<in> set (map credentialID (user_authenticators d2 u))
                           then Reply 500 (Error ''Internal server error'')
                           else Reply 400 (Error ''Authenticator not recognized''), d2))
            \<and> (\<forall>r'. failed (fst (login_verify verifyAuthenticationResponse cfg t1 d1 uname r'))
                  \<longrightarrow> snd (login_verify verifyAuthenticationResponse cfg t1 d1 uname r') = d1)))"
proof (intro conjI impI)
  assume "uname \<noteq> [] \<and> user_findUnique d uname = None \<and> registrable cfg chal rr"
  then show "let d1 = snd (register_challenge cfg d uname chal);
               d2 = snd (register_verify verifyRegistrationResponse cfg d1 uname rr)
           in map_option currentChallenge (user_findUnique d1 uname) = Some (Some chal)
            \<and> fst (register_verify verifyRegistrationResponse cfg d1 uname rr)
                = Reply 200 VerifiedTrue
            \<and> map_option currentChallenge (user_findUnique d2 uname) = Some None
            \<and> (\<forall>rr'. reg_challenge rr' \<noteq> ChallengeNull
                  \<longrightarrow> register_verify verifyRegistrationResponse cfg d2 uname rr'
                        = (Reply 500 (Error ''Internal server error''), d2))
            \<and> (\<forall>rr'. failed (fst (register_verify verifyRegistrationResponse cfg d1 uname rr'))
                  \<longrightarrow> snd (register_verify verifyRegistrationResponse cfg d1 uname rr') = d1)"
    by (intro registration_single_use) blast+
next
  assume "user_findUnique d uname = Some u
       \<and> find (\<lambda>a. credentialID a = response_id r) (user_authenticators d u) = Some auth
       \<and> acceptable cfg auth chal r \<and> key_configured cfg"
  then show "let d1 = snd (login_challenge d uname chal);
               d2 = snd (login_verify verifyAuthenticationResponse cfg t1 d1 uname r)
           in map_option currentChallenge (user_findUnique d1 uname) = Some (Some chal)
            \<and> fst (login_verify verifyAuthenticationResponse cfg t1 d1 uname r)
                = Reply 200 (VerifiedToken
                    \<lparr>token_username = uname, iat = t1, exp = t1 + one_hour,
                     signed_with = the (JWT_SECRET cfg)\<rparr>)
            \<and> map_option currentChallenge (user_findUnique d2 uname) = Some None
            \<and> response_id r \<in> set (map credentialID (user_authenticators d2 u))
            \<and> (\<forall>r'. response_challenge r' \<noteq> ChallengeNull
                  \<longrightarrow> login_verify verifyAuthenticationResponse cfg t2 d2 uname r'
                        = (if response_id r' \<in> set (map credentialID (user_authenticators d2 u))
                           then Reply 500 (Error ''Internal server error'')
                           else Reply 400 (Error ''Authenticator not recognized''), d2))
            \<and> (\<forall>r'. failed (fst (login_verify verifyAuthenticationResponse cfg t1 d1 uname r'))
                  \<longrightarrow> snd (login_verify verifyAuthenticationResponse cfg t1 d1 uname r') = d1)"
    by (intro login_single_use) blast+
qed

text \<open>
  The amended C4 for the registration of "carol" with the challenge \<open>ch-c\<close> and for
  the login of "alice" with the challenge \<open>ch-9\<close>: the first consume succeeds, the
  replay of the same response gets the 500.
\<close>

theorem challenge_single_use_witness:
  "registrable cfg0 ''ch-c'' (registration_of ''C7'' ''ch-c'' [7, 7, 7] 0)
   \<and> fst (register_verify verifyRegistrationResponse cfg0
            (snd (register_challenge cfg0 db_alice_bob ''carol'' ''ch-c'')) ''carol''
            (registration_of ''C7'' ''ch-c'' [7, 7, 7] 0))
       = Reply 200 VerifiedTrue
   \<and> register_verify verifyRegistrationResponse cfg0
        (snd (register_verify verifyRegistrationResponse cfg0
                (snd (register_challenge cfg0 db_alice_bob ''carol'' ''ch-c'')) ''carol''
                (registration_of ''C7'' ''ch-c'' [7, 7, 7] 0)))
        ''carol'' (registration_of ''C7'' ''ch-c'' [7, 7, 7] 0)
       = (Reply 500 (Error ''Internal server error''),
          snd (register_verify verifyRegistrationResponse cfg0
                (snd (register_challenge cfg0 db_alice_bob ''carol'' ''ch-c'')) ''carol''
                (registration_of ''C7'' ''ch-c'' [7, 7, 7] 0)))
   \<and> acceptable cfg0
      \<lparr>authenticator_id = 1, credentialID = ''C1'', credentialPublicKey = [1, 2, 3],
        counter = 0, transports = [], userId = 1\<rparr>
      ''ch-9'' (assertion_of ''C1'' ''ch-9'' [1, 2, 3] 1)
   \<and> key_configured cfg0
   \<and> fst (login_verify verifyAuthenticationResponse cfg0 1000
            (snd (login_challenge db_alice_bob ''alice'' ''ch-9'')) ''alice''
            (assertion_of ''C1'' ''ch-9'' [1, 2, 3] 1))
       = Reply 200 (VerifiedToken
           \<lparr>token_username = ''alice'', iat = 1000, exp = 1000 + one_hour,
            signed_with = the (JWT_SECRET cfg0)\<rparr>)
   \<and> login_verify verifyAuthenticationResponse cfg0 1001
        (snd (login_verify verifyAuthenticationResponse cfg0 1000
                (snd (login_challenge db_alice_bob ''alice'' ''ch-9'')) ''alice''
                (assertion_of ''C1'' ''ch-9'' [1, 2, 3] 1)))
        ''alice'' (assertion_of ''C1'' ''ch-9'' [1, 2, 3] 1)
       = (Reply 500 (Error ''Internal server error''),
          snd (login_verify verifyAuthenticationResponse cfg0 1000
                (snd (login_challenge db_alice_bob ''alice'' ''ch-9'')) ''alice''
                (assertion_of ''C1'' ''ch-9'' [1, 2, 3] 1)))"
proof -
  let ?alice = "\<lparr>user_id = 1, username = ''alice'', currentChallenge = None\<rparr>"
  let ?auth = "\<lparr>authenticator_id = 1, credentialID = ''C1'', credentialPublicKey = [1, 2, 3],
        counter = 0, transports = [], userId = 1\<rparr>"
  let ?r = "assertion_of ''C1'' ''ch-9'' [1, 2, 3] 1"
  let ?rr = "registration_of ''C7'' ''ch-c'' [7, 7, 7] 0"
  have n: "''carol'' \<noteq> []" by simp
  have c: "user_findUnique db_alice_bob ''carol'' = None"
    by code_simp
  have reg: "registrable cfg0 ''ch-c'' ?rr"
    by code_simp
  have rn: "reg_challenge ?rr \<noteq> ChallengeNull"
    by (simp add: registration_of_def)
  have u: "user_findUnique db_alice_bob ''alice'' = Some ?alice"
    by code_simp
  have a: "find (\<lambda>a. credentialID a = response_id ?r) (user_authenticators db_alice_bob ?alice)
             = Some ?auth"
    by code_simp
  have ok: "acceptable cfg0 ?auth ''ch-9'' ?r"
    by code_simp
  have k: "key_configured cfg0"
    by code_simp
  have ln: "response_challenge ?r \<noteq> ChallengeNull"
    by (simp add: assertion_of_def)
  note t = challenge_single_use[where cfg = cfg0 and d = db_alice_bob, unfolded Let_def]
  note tr = t[where uname = "''carol''" and chal = "''ch-c''" and rr = ?rr, THEN conjunct1]
  note tl = t[where uname = "''alice''" and chal = "''ch-9''" and u = ?alice and r = ?r
      and auth = ?auth and ?t1.0 = 1000 and ?t2.0 = 1001, THEN conjunct2]
  from tr n c reg have r1: "fst (register_verify verifyRegistrationResponse cfg0
            (snd (register_challenge cfg0 db_alice_bob ''carol'' ''ch-c'')) ''carol'' ?rr)
       = Reply 200 VerifiedTrue"
    by blast
  from tr n c reg rn have r2: "register_verify verifyRegistrationResponse cfg0
        (snd (register_verify verifyRegistrationResponse cfg0
                (snd (register_challenge cfg0 db_alice_bob ''carol'' ''ch-c'')) ''carol'' ?rr))
        ''carol'' ?rr
       = (Reply 500 (Error ''Internal server error''),
          snd (register_verify verifyRegistrationResponse cfg0
                (snd (register_challenge cfg0 db_alice_bob ''carol'' ''ch-c'')) ''carol'' ?rr))"
    by blast
  from tl u a ok k have l1: "fst (login_verify verifyAuthenticationResponse cfg0 1000
            (snd (login_challenge db_alice_bob ''alice'' ''ch-9'')) ''alice'' ?r)
       = Reply 200 (VerifiedToken
           \<lparr>token_username = ''alice'', iat = 1000, exp = 1000 + one_hour,
            signed_with = the (JWT_SECRET cfg0)\<rparr>)"
    by blast
  from tl u a ok k have l2: "response_id ?r \<in> set (map credentialID (user_authenticators
        (snd (login_verify verifyAuthenticationResponse cfg0 1000
                (snd (login_challenge db_alice_bob ''alice'' ''ch-9'')) ''alice'' ?r)) ?alice))"
    by blast
  from tl u a ok k ln have l3: "login_verify verifyAuthenticationResponse cfg0 1001
        (snd (login_verify verifyAuthenticationResponse cfg0 1000
                (snd (login_challenge db_alice_bob ''alice'' ''ch-9'')) ''alice'' ?r))
        ''alice'' ?r
       = (if response_id ?r \<in> set (map credentialID (user_authenticators
             (snd (login_verify verifyAuthenticationResponse cfg0 1000
                (snd (login_challenge db_alice_bob ''alice'' ''ch-9'')) ''alice'' ?r)) ?alice))
          then Reply 500 (Error ''Internal server error'')
          else Reply 400 (Error ''Authenticator not recognized''),
          snd (login_verify verifyAuthenticationResponse cfg0 1000
                (snd (login_challenge db_alice_bob ''alice'' ''ch-9'')) ''alice'' ?r))"
    by blast
  from l2 l3 have l4: "login_verify verifyAuthenticationResponse cfg0 1001
        (snd (login_verify verifyAuthenticationResponse cfg0 1000
                (snd (login_challenge db_alice_bob ''alice'' ''ch-9'')) ''alice'' ?r))
        ''alice'' ?r
       = (Reply 500 (Error ''Internal server error''),
          snd (login_verify verifyAuthenticationResponse cfg0 1000
                (snd (login_challenge db_alice_bob ''alice'' ''ch-9'')) ''alice'' ?r))"
    by (simp only: if_True)
  from reg r1 r2 ok k l1 l4 show ?thesis
    by blast
qed

section \<open>The counter of a credential\<close>

lemma verifyAuthenticationResponse_regression:
  assumes "\<not> (credential_counter (aa_credential args) < response_counter (aa_response args)
            \<or> credential_counter (aa_credential args) = 0
              \<and> response_counter (aa_response args) = 0)"
  shows "verifyAuthenticationResponse args = Threw"
  using assms by (auto simp: verifyAuthenticationResponse_def Let_def)

lemma verifyAuthenticationResponse_Returned:
  assumes "verifyAuthenticationResponse args = Returned v"
  shows "authenticationInfo_newCounter v = Some (response_counter (aa_response args))"
  using assms by (auto simp: verifyAuthenticationResponse_def Let_def split: if_splits)

text \<open>
  Counterexample to C2 as stated: "alice"'s stored counter is 1 and her response
  reports 1 again, with the pending challenge and a good signature; the reply is the
  generic 500 "Internal server error", the reply that a response with a forged
  challenge and a greater counter gets as well, and names no cloned credential.
\<close>

theorem counter_regression_reply:
  "map (\<lambda>a. (credentialID a, counter a)) (authenticators db_second_login)
     = [(''C2'', 0), (''C1'', 1)]
   \<and> login_verify verifyAuthenticationResponse cfg0 2000 db_second_login ''alice''
        (assertion_of ''C1'' ''ch-2'' [1, 2, 3] 1)
       = (Reply 500 (Error ''Internal server error''), db_second_login)
   \<and> login_verify verifyAuthenticationResponse cfg0 2000 db_second_login ''alice''
        (assertion_of ''C1'' ''forged'' [1, 2, 3] 2)
       = (Reply 500 (Error ''Internal server error''), db_second_login)"
  by code_simp

text \<open>
  C2, as amended: for every authentication-verify call on an existing user owning the
  presented credential, if the reported counter is strictly greater than the stored
  counter, or both are 0, the counter check passes: the call succeeds when the other
  checks pass too and the signing key is configured, and on every success the stored
  counter of the presented credential is the reported value. Otherwise the call is
  answered with the generic 500 "Internal server error" and the database, the stored
  counter with it, is unchanged.
\<close>

theorem login_verify_counter:
  assumes u: "user_findUnique d uname = Some u"
    and a: "find (\<lambda>a. credentialID a = response_id r) (user_authenticators d u) = Some auth"
  shows "(counter auth < response_counter r \<or> counter auth = 0 \<and> response_counter r = 0
            \<longrightarrow> (currentChallenge u = Some chal \<and> acceptable cfg auth chal r
                     \<and> key_configured cfg
                   \<longrightarrow> \<not> failed (fst (login_verify verifyAuthenticationResponse cfg now d uname r)))
              \<and> (\<not> failed (fst (login_verify verifyAuthenticationResponse cfg now d uname r))
                   \<longrightarrow> map_option counter
                         (find (\<lambda>x. authenticator_id x = authenticator_id auth)
                            (authenticators
                               (snd (login_verify verifyAuthenticationResponse cfg now d uname r))))
                       = Some (response_counter r)))
       \<and> (\<not> (counter auth < response_counter r \<or> counter auth = 0 \<and> response_counter r = 0)
            \<longrightarrow> login_verify verifyAuthenticationResponse cfg now d uname r
                  = (Reply 500 (Error ''Internal server error''), d))"
proof -
  let ?args = "\<lparr>aa_response = r, aa_expectedChallenge = currentChallenge u,
                 aa_expectedOrigin = origin cfg, aa_expectedRPID = rpID cfg,
                 aa_credential =
                   \<lparr>credential_id = credentialID auth,
                    credential_publicKey = credentialPublicKey auth,
                    credential_counter = counter auth,
                    credential_transports = Some (transports auth)\<rparr>\<rparr>"
  let ?res = "login_verify verifyAuthenticationResponse cfg now d uname r"
  from a have mem: "auth \<in> set (authenticators d)"
    by (simp add: find_authenticator_SomeD)
  have accepted: "\<not> failed (fst ?res)"
    if "currentChallenge u = Some chal" and "acceptable cfg auth chal r"
      and k: "key_configured cfg"
    using login_verify_accepted[OF u a that(1,2), of now]
    by (simp add: failed_def jwt_sign_configured[OF k])
  have written: "map_option counter
        (find (\<lambda>x. authenticator_id x = authenticator_id auth) (authenticators (snd ?res)))
      = Some (response_counter r)"
    if ok: "\<not> failed (fst ?res)"
  proof (cases "verifyAuthenticationResponse ?args")
    case Threw
    with ok show ?thesis
      by (simp add: login_verify_found[OF u a] failed_def)
  next
    case (Returned v)
    then have n: "authenticationInfo_newCounter v = Some (response_counter r)"
      by (simp add: verifyAuthenticationResponse_Returned)
    with ok Returned have v: "auth_verified v"
      by (simp add: login_verify_found[OF u a] failed_def split: if_splits)
    with Returned n have "authenticators (snd ?res) =
        filter (\<lambda>x. authenticator_id x \<noteq> authenticator_id auth) (authenticators d)
        @ map (\<lambda>x. x\<lparr>counter := response_counter r\<rparr>)
              (filter (\<lambda>x. authenticator_id x = authenticator_id auth) (authenticators d))"
      by (simp add: login_verify_found[OF u a])
    with counter_after_update[OF mem, of "response_counter r"] show ?thesis
      by simp
  qed
  have regression: "?res = (Reply 500 (Error ''Internal server error''), d)"
    if "\<not> (counter auth < response_counter r \<or> counter auth = 0 \<and> response_counter r = 0)"
  proof -
    from that have "verifyAuthenticationResponse ?args = Threw"
      by (intro verifyAuthenticationResponse_regression) simp
    then show ?thesis
      by (simp add: login_verify_found[OF u a])
  qed
  from accepted written regression show ?thesis
    by blast
qed

text \<open>
  The amended C2 for "alice", whose stored counter is 1: a login reporting 2 succeeds
  and stores 2, a login reporting 1 gets the 500 and changes nothing.
\<close>

theorem login_verify_counter_witness:
  "key_configured cfg0
   \<and> \<not> failed (fst (login_verify verifyAuthenticationResponse cfg0 2000 db_second_login ''alice''
                   (assertion_of ''C1'' ''ch-2'' [1, 2, 3] 2)))
   \<and> map_option counter
        (find (\<lambda>x. authenticator_id x = 1)
           (authenticators
              (snd (login_verify verifyAuthenticationResponse cfg0 2000 db_second_login ''alice''
                      (assertion_of ''C1'' ''ch-2'' [1, 2, 3] 2)))))
       = Some 2
   \<and> login_verify verifyAuthenticationResponse cfg0 2000 db_second_login ''alice''
        (assertion_of ''C1'' ''ch-2'' [1, 2, 3] 1)
       = (Reply 500 (Error ''Internal server error''), db_second_login)"
proof -
  let ?alice = "\<lparr>user_id = 1, username = ''alice'', currentChallenge = Some ''ch-2''\<rparr>"
  let ?auth = "\<lparr>authenticator_id = 1, credentialID = ''C1'', credentialPublicKey = [1, 2, 3],
        counter = 1, transports = [], userId = 1\<rparr>"
  have u: "user_findUnique db_second_login ''alice'' = Some ?alice"
    by code_simp
  have a2: "find (\<lambda>a. credentialID a = response_id (assertion_of ''C1'' ''ch-2'' [1, 2, 3] 2))
              (user_authenticators db_second_login ?alice) = Some ?auth"
    by code_simp
  have a1: "find (\<lambda>a. credentialID a = response_id (assertion_of ''C1'' ''ch-2'' [1, 2, 3] 1))
              (user_authenticators db_second_login ?alice) = Some ?auth"
    by code_simp
  have up: "counter ?auth < response_counter (assertion_of ''C1'' ''ch-2'' [1, 2, 3] 2)"
    by (simp add: assertion_of_def)
  have ch: "currentChallenge ?alice = Some ''ch-2''"
    by simp
  have ok: "acceptable cfg0 ?auth ''ch-2'' (assertion_of ''C1'' ''ch-2'' [1, 2, 3] 2)"
    by code_simp
  have k: "key_configured cfg0"
    by code_simp
  have down: "\<not> (counter ?auth < response_counter (assertion_of ''C1'' ''ch-2'' [1, 2, 3] 1)
      \<or> counter ?auth = 0 \<and> response_counter (assertion_of ''C1'' ''ch-2'' [1, 2, 3] 1) = 0)"
    by (simp add: assertion_of_def)
  have i: "authenticator_id ?auth = 1"
    "response_counter (assertion_of ''C1'' ''ch-2'' [1, 2, 3] 2) = 2"
    by (simp_all add: assertion_of_def)
  note t2 = login_verify_counter[OF u a2, of "''ch-2''" cfg0 2000]
  note t1 = login_verify_counter[OF u a1, of "''ch-2''" cfg0 2000]
  from t2 up ch ok k
  have s: "\<not> failed (fst (login_verify verifyAuthenticationResponse cfg0 2000 db_second_login
                   ''alice'' (assertion_of ''C1'' ''ch-2'' [1, 2, 3] 2)))"
    by blast
  with t2 up have w: "map_option counter
        (find (\<lambda>x. authenticator_id x = authenticator_id ?auth)
           (authenticators
              (snd (login_verify verifyAuthenticationResponse cfg0 2000 db_second_login ''alice''
                      (assertion_of ''C1'' ''ch-2'' [1, 2, 3] 2)))))
       = Some (response_counter (assertion_of ''C1'' ''ch-2'' [1, 2, 3] 2))"
    by blast
  from t1 down have f: "login_verify verifyAuthenticationResponse cfg0 2000 db_second_login
        ''alice'' (assertion_of ''C1'' ''ch-2'' [1, 2, 3] 1)
       = (Reply 500 (Error ''Internal server error''), db_second_login)"
    by blast
  from k s w[unfolded i] f show ?thesis
    by blast
qed

end
